theory Spec2Isabelle
  imports Complex_Main
begin

section \<open>Data model\<close>

text \<open>
  Feasibility scoring of the LEAF decision-support system (\<^verbatim>\<open>feasibility.py\<close>,
  \<^verbatim>\<open>config.py\<close>, and the loaders of \<^verbatim>\<open>data_utils.py\<close>).

  A Python float is an IEEE double. A double that is not \<^verbatim>\<open>NaN\<close> is minus infinity, a
  real number or plus infinity; \<^verbatim>\<open>NaN\<close> is \<open>None\<close>, so a pandas series of floats is a
  list of \<open>float\<close>. The two signed zeros are one value. Arithmetic rounds its exact
  result to the nearest double (section on arithmetic below); comparisons are exact.
\<close>

datatype bound = NegInf | Fin real | PosInf

type_synonym float = "bound option"

text \<open>
  A pandas cell is a number, a text or the missing value (\<^verbatim>\<open>NaN\<close> or \<^verbatim>\<open>None\<close>).
  The geometry of a unit is not modelled: a unit is its row of attributes. Integer cells
  beyond \<open>2 ^ 53\<close>, which pandas would round when it compares them with a float, are
  outside the model.
\<close>

datatype cell = Num bound | Text string | NaN

text \<open>
  A (Geo)DataFrame: the column names and the rows. A row is read only at names that are
  in \<open>columns\<close>; the code tests \<^verbatim>\<open>column in gdf.columns\<close> before it reads.
\<close>

record gdf =
  columns :: "string list"
  rows :: "(string \<Rightarrow> cell) list"

text \<open>
  A scalar of a JSON document as Python holds it: \<^verbatim>\<open>None\<close>, a bool, a number (an int
  or a float, as the double the arithmetic uses; Python's parser also reads \<^verbatim>\<open>NaN\<close> and
  \<^verbatim>\<open>Infinity\<close>), or a string. Arrays and objects are outside the model.
\<close>

datatype json = JNull | JBool bool | JNumber float | JString string

text \<open>
  A criterion is a dict of the request, read without validation. Each key may be absent
  (\<open>None\<close>); a key that is present holds any JSON scalar. A request whose criteria are
  not a list of dicts is outside the model.
\<close>

record criterion =
  c_column :: "json option"
  c_field :: "json option"
  c_min_val :: "json option"
  c_range_min :: "json option"
  c_max_val :: "json option"
  c_range_max :: "json option"
  c_weight :: "json option"

datatype error = KeyError string | TypeError | FileNotFoundError string | LibraryError string

section \<open>Arithmetic and comparison of doubles\<close>

text \<open>Rounding a real to an integer, ties to the even one.\<close>

definition round_even :: "real \<Rightarrow> int" where
  "round_even q =
     (let f = \<lfloor>q\<rfloor>; d = q - of_int f
      in if d < 1 / 2 then f
         else if d > 1 / 2 then f + 1
         else if even f then f else f + 1)"

definition overflow_threshold :: real where
  "overflow_threshold = 2 ^ 1024"

text \<open>
  Rounding to the nearest double (binary64: 53 significant bits, least exponent
  \<open>-1074\<close>), ties to even. A result that reaches \<open>2 ^ 1024\<close> overflows to infinity.
\<close>

definition rnd :: "real \<Rightarrow> bound" where
  "rnd x =
     (if x = 0 then Fin 0
      else
        (let e = max (\<lfloor>log 2 \<bar>x\<bar>\<rfloor> - 52) (- 1074);
             y = of_int (round_even (x / 2 powi e)) * 2 powi e
         in if \<bar>y\<bar> \<ge> overflow_threshold then (if x > 0 then PosInf else NegInf) else Fin y))"

fun add_bound :: "bound \<Rightarrow> bound \<Rightarrow> float" where
  "add_bound (Fin a) (Fin b) = Some (rnd (a + b))"
| "add_bound PosInf NegInf = None"
| "add_bound NegInf PosInf = None"
| "add_bound PosInf b = Some PosInf"
| "add_bound a PosInf = Some PosInf"
| "add_bound NegInf b = Some NegInf"
| "add_bound a NegInf = Some NegInf"

fun mul_bound :: "bound \<Rightarrow> bound \<Rightarrow> float" where
  "mul_bound (Fin a) (Fin b) = Some (rnd (a * b))"
| "mul_bound (Fin a) PosInf = (if a = 0 then None else Some (if a > 0 then PosInf else NegInf))"
| "mul_bound (Fin a) NegInf = (if a = 0 then None else Some (if a > 0 then NegInf else PosInf))"
| "mul_bound PosInf (Fin b) = (if b = 0 then None else Some (if b > 0 then PosInf else NegInf))"
| "mul_bound NegInf (Fin b) = (if b = 0 then None else Some (if b > 0 then NegInf else PosInf))"
| "mul_bound PosInf PosInf = Some PosInf"
| "mul_bound PosInf NegInf = Some NegInf"
| "mul_bound NegInf PosInf = Some NegInf"
| "mul_bound NegInf NegInf = Some PosInf"

text \<open>
  Division. The code divides only where the divisor is greater than zero; for a zero
  divisor the sign of the zero, which the model does not keep, is taken as positive.
\<close>

fun div_bound :: "bound \<Rightarrow> bound \<Rightarrow> float" where
  "div_bound (Fin a) (Fin b) =
     (if b = 0 then (if a = 0 then None else Some (if a > 0 then PosInf else NegInf))
      else Some (rnd (a / b)))"
| "div_bound (Fin a) PosInf = Some (Fin 0)"
| "div_bound (Fin a) NegInf = Some (Fin 0)"
| "div_bound PosInf (Fin b) = Some (if b \<ge> 0 then PosInf else NegInf)"
| "div_bound NegInf (Fin b) = Some (if b \<ge> 0 then NegInf else PosInf)"
| "div_bound PosInf PosInf = None"
| "div_bound PosInf NegInf = None"
| "div_bound NegInf PosInf = None"
| "div_bound NegInf NegInf = None"

text \<open>The operations on floats: \<^verbatim>\<open>NaN\<close> propagates.\<close>

definition fadd :: "float \<Rightarrow> float \<Rightarrow> float" where
  "fadd x y = (case x of None \<Rightarrow> None | Some a \<Rightarrow> (case y of None \<Rightarrow> None | Some b \<Rightarrow> add_bound a b))"

definition fmul :: "float \<Rightarrow> float \<Rightarrow> float" where
  "fmul x y = (case x of None \<Rightarrow> None | Some a \<Rightarrow> (case y of None \<Rightarrow> None | Some b \<Rightarrow> mul_bound a b))"

definition fdiv :: "float \<Rightarrow> float \<Rightarrow> float" where
  "fdiv x y = (case x of None \<Rightarrow> None | Some a \<Rightarrow> (case y of None \<Rightarrow> None | Some b \<Rightarrow> div_bound a b))"

text \<open>\<^verbatim>\<open>value >= b\<close> and \<^verbatim>\<open>value <= b\<close> on two doubles that are not \<^verbatim>\<open>NaN\<close>.\<close>

fun ge_bound :: "bound \<Rightarrow> bound \<Rightarrow> bool" where
  "ge_bound v NegInf = True"
| "ge_bound PosInf b = True"
| "ge_bound (Fin v) (Fin m) = (v \<ge> m)"
| "ge_bound v b = False"

fun le_bound :: "bound \<Rightarrow> bound \<Rightarrow> bool" where
  "le_bound v PosInf = True"
| "le_bound NegInf b = True"
| "le_bound (Fin v) (Fin m) = (v \<le> m)"
| "le_bound v b = False"

text \<open>\<^verbatim>\<open>x > 0\<close> on a float; false for \<^verbatim>\<open>NaN\<close>.\<close>

fun gt_zero :: "float \<Rightarrow> bool" where
  "gt_zero None = False"
| "gt_zero (Some NegInf) = False"
| "gt_zero (Some (Fin a)) = (a > 0)"
| "gt_zero (Some PosInf) = True"

section \<open>Matching one criterion\<close>

text \<open>
  \<^verbatim>\<open>pd.to_numeric(..., errors='coerce')\<close> on one cell. How pandas reads a text as a
  number is library behaviour and is the parameter \<open>parse\<close>; a text it cannot read
  becomes missing.
\<close>

fun to_numeric :: "(string \<Rightarrow> bound option) \<Rightarrow> cell \<Rightarrow> bound option" where
  "to_numeric parse (Num x) = Some x"
| "to_numeric parse (Text s) = parse s"
| "to_numeric parse NaN = None"

text \<open>
  The number a JSON scalar is in a comparison or a product: a bool counts as 1 or 0;
  \<^verbatim>\<open>None\<close> has none, and every comparison with it or with \<^verbatim>\<open>NaN\<close> is false. A string
  is no number: pandas refuses to order a numeric series against a string, and numpy
  to multiply by one.
\<close>

fun number_of :: "json \<Rightarrow> float" where
  "number_of (JNumber x) = x"
| "number_of (JBool b) = Some (Fin (if b then 1 else 0))"
| "number_of JNull = None"
| "number_of (JString s) = None"

fun is_string :: "json \<Rightarrow> bool" where
  "is_string (JString s) = True"
| "is_string j = False"

definition ge_json :: "bound \<Rightarrow> json \<Rightarrow> bool" where
  "ge_json v j = (case number_of j of None \<Rightarrow> False | Some b \<Rightarrow> ge_bound v b)"

definition le_json :: "bound \<Rightarrow> json \<Rightarrow> bool" where
  "le_json v j = (case number_of j of None \<Rightarrow> False | Some b \<Rightarrow> le_bound v b)"

text \<open>
  \<^verbatim>\<open>column in gdf.columns\<close>. The labels of a table are strings, so a column that is
  a bool or a number is not among them.
\<close>

fun in_columns :: "json \<Rightarrow> gdf \<Rightarrow> bool" where
  "in_columns (JString s) g = (s \<in> set (columns g))"
| "in_columns j g = False"

text \<open>\<^verbatim>\<open>gdf[column]\<close> at one row; it is read only for a column of the table.\<close>

fun at_column :: "(string \<Rightarrow> cell) \<Rightarrow> json \<Rightarrow> cell" where
  "at_column r (JString s) = r s"
| "at_column r j = NaN"

text \<open>
  \<^verbatim>\<open>calculate_criteria_match\<close>. Without the column it returns before it compares.
  Otherwise the two comparisons of the coerced series with the bounds raise
  \<^verbatim>\<open>TypeError\<close> when a bound is a string.
\<close>

definition calculate_criteria_match ::
  "(string \<Rightarrow> bound option) \<Rightarrow> gdf \<Rightarrow> json \<Rightarrow> json \<Rightarrow> json \<Rightarrow> error + float list" where
  "calculate_criteria_match parse g column min_val max_val =
     (if \<not> in_columns column g then Inr (replicate (length (rows g)) None)
      else if is_string min_val \<or> is_string max_val then Inl TypeError
      else Inr (map (\<lambda>r. case to_numeric parse (at_column r column) of
                            None \<Rightarrow> None
                          | Some v \<Rightarrow>
                              Some (Fin (if ge_json v min_val \<and> le_json v max_val then 1 else 0)))
                    (rows g)))"

section \<open>The weighted score\<close>

text \<open>
  The truth value Python gives a JSON scalar: \<^verbatim>\<open>None\<close>, \<^verbatim>\<open>False\<close>, zero and the empty
  string are false, everything else, \<^verbatim>\<open>NaN\<close> included, is true.
\<close>

fun truthy :: "json \<Rightarrow> bool" where
  "truthy JNull = False"
| "truthy (JBool b) = b"
| "truthy (JNumber x) = (x \<noteq> Some (Fin 0))"
| "truthy (JString s) = (s \<noteq> [])"

text \<open>\<^verbatim>\<open>c.get(key)\<close>: an absent key and a key that holds \<^verbatim>\<open>null\<close> both give \<^verbatim>\<open>None\<close>.\<close>

fun get :: "json option \<Rightarrow> json option" where
  "get None = None"
| "get (Some JNull) = None"
| "get (Some j) = Some j"

text \<open>
  \<^verbatim>\<open>c.get('column') or c.get('field')\<close>: a first value that is false gives the second,
  whatever it is. The result \<open>None\<close> is Python's \<^verbatim>\<open>None\<close>.
\<close>

definition get_column :: "criterion \<Rightarrow> json option" where
  "get_column c =
     (case get (c_column c) of
        None \<Rightarrow> get (c_field c)
      | Some j \<Rightarrow> if truthy j then Some j else get (c_field c))"

text \<open>\<^verbatim>\<open>pd.isna\<close> on a JSON scalar.\<close>

fun isna :: "json \<Rightarrow> bool" where
  "isna JNull = True"
| "isna (JNumber None) = True"
| "isna j = False"

text \<open>
  \<^verbatim>\<open>c.get('min_val', c.get('range_min', float('-inf')))\<close> followed by the
  \<^verbatim>\<open>pd.isna\<close> replacement; likewise for the upper bound.
\<close>

definition get_min :: "criterion \<Rightarrow> json" where
  "get_min c =
     (let min_val = (case c_min_val c of
                       Some v \<Rightarrow> v
                     | None \<Rightarrow> (case c_range_min c of
                                  Some v \<Rightarrow> v
                                | None \<Rightarrow> JNumber (Some NegInf)))
      in if isna min_val then JNumber (Some NegInf) else min_val)"

definition get_max :: "criterion \<Rightarrow> json" where
  "get_max c =
     (let max_val = (case c_max_val c of
                       Some v \<Rightarrow> v
                     | None \<Rightarrow> (case c_range_max c of
                                  Some v \<Rightarrow> v
                                | None \<Rightarrow> JNumber (Some PosInf)))
      in if isna max_val then JNumber (Some PosInf) else max_val)"

text \<open>\<^verbatim>\<open>c.get('weight', 1)\<close>.\<close>

definition get_weight :: "criterion \<Rightarrow> json" where
  "get_weight c = (case c_weight c of None \<Rightarrow> JNumber (Some (Fin 1)) | Some w \<Rightarrow> w)"

text \<open>
  The weight as the operand of \<^verbatim>\<open>match[valid_mask] * weight\<close>. A string raises
  \<^verbatim>\<open>TypeError\<close>. \<^verbatim>\<open>None\<close> raises \<^verbatim>\<open>TypeError\<close> at the first element it is multiplied
  with; when no unit has a match there is no such element and the two updates leave the
  sums as they are, which they also do for the operand returned here.
\<close>

fun weight_operand :: "float list \<Rightarrow> json \<Rightarrow> error + float" where
  "weight_operand match (JNumber w) = Inr w"
| "weight_operand match (JBool b) = Inr (Some (Fin (if b then 1 else 0)))"
| "weight_operand match (JString s) = Inl TypeError"
| "weight_operand match JNull = (if list_ex (\<lambda>m. m \<noteq> None) match then Inl TypeError else Inr None)"

text \<open>
  \<^verbatim>\<open>weighted_matches[valid_mask] += match[valid_mask] * weight\<close> and
  \<^verbatim>\<open>weighted_applicable[valid_mask] += weight\<close>, positionwise.
\<close>

definition add_matches :: "float list \<Rightarrow> float list \<Rightarrow> float \<Rightarrow> float list" where
  "add_matches acc match weight =
     map (\<lambda>(a, m). case m of None \<Rightarrow> a | Some x \<Rightarrow> fadd a (fmul (Some x) weight)) (zip acc match)"

definition add_applicable :: "float list \<Rightarrow> float list \<Rightarrow> float \<Rightarrow> float list" where
  "add_applicable acc match weight =
     map (\<lambda>(a, m). case m of None \<Rightarrow> a | Some x \<Rightarrow> fadd a weight) (zip acc match)"

text \<open>The loop over the criteria, with the two running series as state.\<close>

fun accumulate ::
  "(string \<Rightarrow> bound option) \<Rightarrow> gdf \<Rightarrow> criterion list \<Rightarrow> float list \<times> float list
     \<Rightarrow> error + float list \<times> float list" where
  "accumulate parse g [] acc = Inr acc"
| "accumulate parse g (c # cs) (weighted_matches, weighted_applicable) =
     (case get_column c of
        None \<Rightarrow> accumulate parse g cs (weighted_matches, weighted_applicable)
      | Some column \<Rightarrow>
          (case calculate_criteria_match parse g column (get_min c) (get_max c) of
             Inl e \<Rightarrow> Inl e
           | Inr match \<Rightarrow>
               (case weight_operand match (get_weight c) of
                  Inl e \<Rightarrow> Inl e
                | Inr weight \<Rightarrow>
                    accumulate parse g cs
                      (add_matches weighted_matches match weight,
                       add_applicable weighted_applicable match weight))))"

definition calculate_feasibility ::
  "(string \<Rightarrow> bound option) \<Rightarrow> gdf \<Rightarrow> criterion list \<Rightarrow> string \<Rightarrow> error + float list" where
  "calculate_feasibility parse g criteria logic =
     (if criteria = [] then Inr (replicate (length (rows g)) None)
      else
        (case accumulate parse g criteria
                (replicate (length (rows g)) (Some (Fin 0)),
                 replicate (length (rows g)) (Some (Fin 0))) of
           Inl e \<Rightarrow> Inl e
         | Inr (weighted_matches, weighted_applicable) \<Rightarrow>
             Inr (map (\<lambda>(m, a). if gt_zero a then fmul (fdiv m a) (Some (Fin 100)) else None)
                      (zip weighted_matches weighted_applicable))))"

section \<open>Classification\<close>

text \<open>
  \<^verbatim>\<open>classify_feasibility\<close> on a float. The conversion \<^verbatim>\<open>float(value)\<close> cannot fail
  on a float, so its handler is not reached.
\<close>

definition classify_feasibility :: "float \<Rightarrow> string \<times> string" where
  "classify_feasibility value =
     (case value of
        None \<Rightarrow> (''no_data'', ''No Data'')
      | Some v \<Rightarrow>
          if ge_bound v (Fin 100) then (''very_high'', ''100%'')
          else if ge_bound v (Fin 75) then (''high'', ''75-100%'')
          else if ge_bound v (Fin 50) then (''moderate_high'', ''50-75%'')
          else if ge_bound v (Fin 25) then (''moderate'', ''25-50%'')
          else if ge_bound v (Fin 1) then (''low'', ''1-25%'')
          else (''very_low'', ''0%''))"

text \<open>\<^verbatim>\<open>FEASIBILITY_COLORS\<close> of \<^verbatim>\<open>config.py\<close>, a dict.\<close>

definition FEASIBILITY_COLORS :: "string \<rightharpoonup> string" where
  "FEASIBILITY_COLORS =
     [''very_high'' \<mapsto> ''#1b5e20'',
      ''high'' \<mapsto> ''#81c784'',
      ''moderate_high'' \<mapsto> ''#c5e1a5'',
      ''moderate'' \<mapsto> ''#ffd700'',
      ''low'' \<mapsto> ''#ff8c00'',
      ''very_low'' \<mapsto> ''#ff0000'',
      ''no_data'' \<mapsto> ''#E0E0E0'']"

text \<open>
  \<^verbatim>\<open>FEASIBILITY_COLORS.get(category, FEASIBILITY_COLORS['no_data'])\<close>. The default
  is evaluated first; the key \<^verbatim>\<open>'no_data'\<close> is in the dict, so the lookup cannot
  raise.
\<close>

definition get_feasibility_color :: "float \<Rightarrow> string" where
  "get_feasibility_color value =
     (let category = fst (classify_feasibility value)
      in case FEASIBILITY_COLORS category of
           Some col \<Rightarrow> col
         | None \<Rightarrow> ''#E0E0E0'')"

section \<open>Scoring a table\<close>

text \<open>A float of a series as a cell of the table.\<close>

fun cell_of :: "float \<Rightarrow> cell" where
  "cell_of None = NaN"
| "cell_of (Some x) = Num x"

text \<open>
  \<^verbatim>\<open>gdf[name] = series\<close>: the column is added when it is new and overwritten
  otherwise; every row gets its value of the series.
\<close>

definition set_column :: "gdf \<Rightarrow> string \<Rightarrow> cell list \<Rightarrow> gdf" where
  "set_column g name series =
     \<lparr> columns = (if name \<in> set (columns g) then columns g else columns g @ [name]),
       rows = map (\<lambda>(r, v). r(name := v)) (zip (rows g) series) \<rparr>"

text \<open>
  \<^verbatim>\<open>add_feasibility_to_gdf\<close> works on a copy, so the table passed in is unchanged.
  The column \<^verbatim>\<open>gdf['feasibility']\<close> that is read back for the classification holds
  the series that was just assigned. An error of the scoring passes through.
\<close>

definition add_feasibility_to_gdf ::
  "(string \<Rightarrow> bound option) \<Rightarrow> gdf \<Rightarrow> criterion list \<Rightarrow> string \<Rightarrow> error + gdf" where
  "add_feasibility_to_gdf parse g criteria logic =
     (case calculate_feasibility parse g criteria logic of
        Inl e \<Rightarrow> Inl e
      | Inr feasibility \<Rightarrow>
          (let g1 = set_column g ''feasibility'' (map cell_of feasibility);
               classifications = map classify_feasibility feasibility;
               g2 = set_column g1 ''feasibility_class'' (map (\<lambda>x. Text (fst x)) classifications);
               g3 = set_column g2 ''feasibility_label'' (map (\<lambda>x. Text (snd x)) classifications)
           in Inr (set_column g3 ''feasibility_color''
                     (map (\<lambda>v. Text (get_feasibility_color v)) feasibility))))"

section \<open>Distribution and statistics\<close>

text \<open>
  \<^verbatim>\<open>Series.value_counts().to_dict()\<close>: every value of the series other than the
  missing one, with the number of rows that hold it.
\<close>

definition value_counts :: "cell list \<Rightarrow> (cell \<rightharpoonup> nat)" where
  "value_counts series =
     (\<lambda>k. if k \<noteq> NaN \<and> k \<in> set series then Some (count_list series k) else None)"

definition all_labels :: "string list" where
  "all_labels = [''100%'', ''75-100%'', ''50-75%'', ''25-50%'', ''1-25%'', ''0%'', ''No Data'']"

definition get_feasibility_distribution :: "gdf \<Rightarrow> (cell \<rightharpoonup> nat)" where
  "get_feasibility_distribution g =
     (if ''feasibility_label'' \<notin> set (columns g) then Map.empty
      else
        (let distribution = value_counts (map (\<lambda>r. r ''feasibility_label'') (rows g))
         in fold (\<lambda>label d. case d (Text label) of
                               None \<Rightarrow> d(Text label \<mapsto> 0)
                             | Some n \<Rightarrow> d)
                 all_labels distribution))"

text \<open>The values of the statistics dict: a Python int, a float, or the distribution dict.\<close>

datatype stat = SInt int | SFloat float | SDist "cell \<rightharpoonup> nat"

text \<open>
  The numbers of a series whose missing values were dropped. A text among them makes
  the numeric reductions below raise.
\<close>

fun as_floats :: "cell list \<Rightarrow> bound list option" where
  "as_floats [] = Some []"
| "as_floats (Num x # cs) = map_option ((#) x) (as_floats cs)"
| "as_floats (c # cs) = None"

definition min_bound :: "bound \<Rightarrow> bound \<Rightarrow> bound" where
  "min_bound a b = (if le_bound a b then a else b)"

definition max_bound :: "bound \<Rightarrow> bound \<Rightarrow> bound" where
  "max_bound a b = (if ge_bound a b then a else b)"

text \<open>
  \<^verbatim>\<open>get_feasibility_stats\<close>. The order in which pandas adds up a series, and with it
  the rounding of \<^verbatim>\<open>mean()\<close> and \<^verbatim>\<open>median()\<close>, is library behaviour: the two
  reductions of a series without missing values are the parameters \<open>series_mean\<close> and
  \<open>series_median\<close>.
\<close>

definition get_feasibility_stats ::
  "(bound list \<Rightarrow> float) \<Rightarrow> (bound list \<Rightarrow> float) \<Rightarrow> gdf \<Rightarrow> error + (string \<rightharpoonup> stat)" where
  "get_feasibility_stats series_mean series_median g =
     (if ''feasibility'' \<notin> set (columns g) then Inr Map.empty
      else
        (case as_floats (filter (\<lambda>c. c \<noteq> NaN) (map (\<lambda>r. r ''feasibility'') (rows g))) of
           None \<Rightarrow> Inl TypeError
         | Some valid \<Rightarrow>
             Inr [''total_blocks'' \<mapsto> SInt (int (length (rows g))),
                  ''blocks_with_data'' \<mapsto> SInt (int (length valid)),
                  ''blocks_no_data'' \<mapsto> SInt (int (length (rows g)) - int (length valid)),
                  ''mean'' \<mapsto> (if length valid > 0 then SFloat (series_mean valid) else SInt 0),
                  ''median'' \<mapsto> (if length valid > 0 then SFloat (series_median valid)
                                 else SInt 0),
                  ''min'' \<mapsto> (if length valid > 0
                              then SFloat (Some (fold min_bound (tl valid) (hd valid)))
                              else SInt 0),
                  ''max'' \<mapsto> (if length valid > 0
                              then SFloat (Some (fold max_bound (tl valid) (hd valid)))
                              else SInt 100),
                  ''high_feasibility'' \<mapsto>
                     SInt (int (length (filter (\<lambda>v. ge_bound v (Fin 75)) valid))),
                  ''low_feasibility'' \<mapsto>
                     SInt (int (length (filter (\<lambda>v. \<not> ge_bound v (Fin 25)) valid)))]))"

section \<open>Scores, map data and scoped statistics\<close>

fun json_of :: "cell \<Rightarrow> json" where
  "json_of (Num x) = JNumber (Some x)"
| "json_of (Text s) = JString s"
| "json_of NaN = JNull"

text \<open>
  \<^verbatim>\<open>json.loads(gdf.to_json())\<close>: one feature per row, whose properties are the row's
  cells under the column names, a missing cell written as \<^verbatim>\<open>null\<close>. The loop that
  replaces \<^verbatim>\<open>NaN\<close> floats in the properties by \<^verbatim>\<open>None\<close> then finds nothing to replace.
\<close>

definition to_json :: "gdf \<Rightarrow> (string \<rightharpoonup> json) list" where
  "to_json g =
     map (\<lambda>r. (\<lambda>k. if k \<in> set (columns g) then Some (json_of (r k)) else None)) (rows g)"

text \<open>\<^verbatim>\<open>gdf[mask]\<close>: the rows that satisfy the mask, under the same columns.\<close>

definition select_rows :: "gdf \<Rightarrow> ((string \<Rightarrow> cell) \<Rightarrow> bool) \<Rightarrow> gdf" where
  "select_rows g keep = g\<lparr>rows := filter keep (rows g)\<rparr>"

record feasibility_result =
  geojson :: "(string \<rightharpoonup> json) list"
  statistics :: "string \<rightharpoonup> stat"

text \<open>
  The table the statistics are computed on, \<^verbatim>\<open>gdf_for_stats\<close> in
  \<^verbatim>\<open>calculate_and_get_geojson\<close>. The scope \<open>district\<close> is \<^verbatim>\<open>None\<close> or a string, for
  which \<^verbatim>\<open>str(district)\<close> is the string itself; \<^verbatim>\<open>None\<close> and the empty string are
  falsy. How \<^verbatim>\<open>astype(str)\<close> writes a cell is library behaviour and is the parameter
  \<open>astype_str\<close>. Reading the column \<^verbatim>\<open>DISTRICT_I\<close> of a table that has none raises
  \<^verbatim>\<open>KeyError\<close>.
\<close>

definition scope_for_stats :: "(cell \<Rightarrow> string) \<Rightarrow> gdf \<Rightarrow> string option \<Rightarrow> error + gdf" where
  "scope_for_stats astype_str gdf_with_feas district =
     (case district of
        None \<Rightarrow> Inr gdf_with_feas
      | Some d \<Rightarrow>
          if d = [] then Inr gdf_with_feas
          else
            (case (if ''Dist_Name'' \<in> set (columns gdf_with_feas)
                   then Inr (select_rows gdf_with_feas (\<lambda>r. r ''Dist_Name'' = Text d))
                   else if ''DISTRICT_I'' \<in> set (columns gdf_with_feas)
                   then Inr (select_rows gdf_with_feas (\<lambda>r. astype_str (r ''DISTRICT_I'') = d))
                   else Inl (KeyError ''DISTRICT_I'')) of
               Inl e \<Rightarrow> Inl e
             | Inr gdf_for_stats \<Rightarrow>
                 if length (rows gdf_for_stats) = 0
                    \<and> ''DISTRICT_I'' \<in> set (columns gdf_with_feas)
                 then Inr (select_rows gdf_with_feas (\<lambda>r. astype_str (r ''DISTRICT_I'') = d))
                 else Inr gdf_for_stats))"

definition calculate_and_get_geojson ::
  "(string \<Rightarrow> bound option) \<Rightarrow> (cell \<Rightarrow> string) \<Rightarrow> (bound list \<Rightarrow> float)
     \<Rightarrow> (bound list \<Rightarrow> float) \<Rightarrow> gdf \<Rightarrow> criterion list \<Rightarrow> string
     \<Rightarrow> string option \<Rightarrow> error + feasibility_result" where
  "calculate_and_get_geojson parse astype_str series_mean series_median g criteria logic district =
     (case add_feasibility_to_gdf parse g criteria logic of
        Inl e \<Rightarrow> Inl e
      | Inr gdf_with_feas \<Rightarrow>
          (case scope_for_stats astype_str gdf_with_feas district of
             Inl e \<Rightarrow> Inl e
           | Inr gdf_for_stats \<Rightarrow>
               (let distribution = get_feasibility_distribution gdf_for_stats
                in case get_feasibility_stats series_mean series_median gdf_for_stats of
                     Inl e \<Rightarrow> Inl e
                   | Inr stats \<Rightarrow>
                       Inr \<lparr> geojson = to_json gdf_with_feas,
                             statistics = stats(''distribution'' \<mapsto> SDist distribution) \<rparr>)))"

section \<open>Loading the data sources\<close>

text \<open>
  The files under the data directory: a path either has contents or does not exist.
  What the geometry and spreadsheet libraries make of the contents (reading,
  reprojection, trimming of column names, joins, simplification) is a parameter of each
  loader; a failure inside it is a \<open>LibraryError\<close>.
\<close>

type_synonym 'f files = "string \<rightharpoonup> 'f"

definition DATA_DIR :: string where
  "DATA_DIR = ''data''"

text \<open>
  \<^verbatim>\<open>@lru_cache(maxsize=1)\<close> on a function without arguments: the slot keeps the first
  value that was returned (also \<^verbatim>\<open>None\<close>); a call that raised leaves it empty.
\<close>

definition lru_cache ::
  "('s \<Rightarrow> error + 'a) \<Rightarrow> 'a option \<Rightarrow> 's \<Rightarrow> (error + 'a) \<times> 'a option" where
  "lru_cache f slot s =
     (case slot of
        Some v \<Rightarrow> (Inr v, slot)
      | None \<Rightarrow> (case f s of Inl e \<Rightarrow> (Inl e, None) | Inr v \<Rightarrow> (Inr v, Some v)))"

definition load_shapefile_body ::
  "('f files \<Rightarrow> 'f \<Rightarrow> string + gdf) \<Rightarrow> 'f files \<Rightarrow> error + gdf" where
  "load_shapefile_body read_blocks fs =
     (let shapefile_path = DATA_DIR @ ''/4DSS_VAR_2.0.shp''
      in case fs shapefile_path of
           None \<Rightarrow> Inl (FileNotFoundError (''Shapefile not found at '' @ shapefile_path))
         | Some file \<Rightarrow>
             (case read_blocks fs file of Inl msg \<Rightarrow> Inl (LibraryError msg) | Inr g \<Rightarrow> Inr g))"

definition load_shapefile ::
  "('f files \<Rightarrow> 'f \<Rightarrow> string + gdf) \<Rightarrow> gdf option \<Rightarrow> 'f files
     \<Rightarrow> (error + gdf) \<times> gdf option" where
  "load_shapefile read_blocks = lru_cache (load_shapefile_body read_blocks)"

text \<open>The optional sources return \<^verbatim>\<open>None\<close> when their file does not exist.\<close>

definition load_gp_data_body ::
  "('f files \<Rightarrow> 'f \<Rightarrow> string + gdf) \<Rightarrow> 'f files \<Rightarrow> error + gdf option" where
  "load_gp_data_body read_excel fs =
     (let excel_path = DATA_DIR @ ''/Tinsukia_GP_data.xlsx''
      in case fs excel_path of
           None \<Rightarrow> Inr None
         | Some file \<Rightarrow>
             (case read_excel fs file of
                Inl msg \<Rightarrow> Inl (LibraryError msg)
              | Inr df \<Rightarrow> Inr (Some df)))"

definition load_gp_data ::
  "('f files \<Rightarrow> 'f \<Rightarrow> string + gdf) \<Rightarrow> gdf option option \<Rightarrow> 'f files
     \<Rightarrow> (error + gdf option) \<times> gdf option option" where
  "load_gp_data read_excel = lru_cache (load_gp_data_body read_excel)"

definition load_gp_shapefile_body ::
  "('f files \<Rightarrow> 'f \<Rightarrow> string + gdf) \<Rightarrow> 'f files \<Rightarrow> error + gdf option" where
  "load_gp_shapefile_body read_gps fs =
     (let shapefile_path = DATA_DIR @ ''/grampanchayat.shp''
      in case fs shapefile_path of
           None \<Rightarrow> Inr None
         | Some file \<Rightarrow>
             (case read_gps fs file of
                Inl msg \<Rightarrow> Inl (LibraryError msg)
              | Inr g \<Rightarrow> Inr (Some g)))"

definition load_gp_shapefile ::
  "('f files \<Rightarrow> 'f \<Rightarrow> string + gdf) \<Rightarrow> gdf option option \<Rightarrow> 'f files
     \<Rightarrow> (error + gdf option) \<times> gdf option option" where
  "load_gp_shapefile read_gps = lru_cache (load_gp_shapefile_body read_gps)"

text \<open>
  A cache slot agrees with the files when it is empty or holds what the loader returns
  on them: the state of a process whose data files do not change while it runs.
\<close>

definition cache_agrees :: "('s \<Rightarrow> error + 'a) \<Rightarrow> 's \<Rightarrow> 'a option \<Rightarrow> bool" where
  "cache_agrees f s slot = (case slot of None \<Rightarrow> True | Some v \<Rightarrow> f s = Inr v)"

section \<open>The score as the specification words it\<close>

text \<open>
  A criterion is applicable to unit \<open>i\<close> when its column exists in the table and the
  unit's value there coerces to a number.
\<close>

definition applicable :: "(string \<Rightarrow> bound option) \<Rightarrow> gdf \<Rightarrow> nat \<Rightarrow> criterion \<Rightarrow> bool" where
  "applicable parse g i c =
     (case get_column c of
        None \<Rightarrow> False
      | Some column \<Rightarrow>
          in_columns column g \<and> to_numeric parse (at_column (rows g ! i) column) \<noteq> None)"

text \<open>The match of an applicable criterion: 1 if \<open>min \<le> value \<le> max\<close>, else 0.\<close>

definition match_value :: "(string \<Rightarrow> bound option) \<Rightarrow> gdf \<Rightarrow> nat \<Rightarrow> criterion \<Rightarrow> real" where
  "match_value parse g i c =
     (case get_column c of
        None \<Rightarrow> 0
      | Some column \<Rightarrow>
          (case to_numeric parse (at_column (rows g ! i) column) of
             None \<Rightarrow> 0
           | Some v \<Rightarrow> if ge_json v (get_min c) \<and> le_json v (get_max c) then 1 else 0))"

text \<open>The weight of a criterion as a float.\<close>

definition weight_value :: "criterion \<Rightarrow> float" where
  "weight_value c = number_of (get_weight c)"

text \<open>
  The sum of weight over the applicable criteria, and of match times weight, added up
  in doubles from 0.0 in the order of the list.
\<close>

definition applicable_weight ::
  "(string \<Rightarrow> bound option) \<Rightarrow> gdf \<Rightarrow> criterion list \<Rightarrow> nat \<Rightarrow> float" where
  "applicable_weight parse g criteria i =
     foldl fadd (Some (Fin 0)) (map weight_value (filter (applicable parse g i) criteria))"

definition matched_weight ::
  "(string \<Rightarrow> bound option) \<Rightarrow> gdf \<Rightarrow> criterion list \<Rightarrow> nat \<Rightarrow> float" where
  "matched_weight parse g criteria i =
     foldl fadd (Some (Fin 0))
       (map (\<lambda>c. fmul (Some (Fin (match_value parse g i c))) (weight_value c))
            (filter (applicable parse g i) criteria))"

text \<open>
  The score as worded: whenever some criterion is applicable, 100 times the sum of weight
  times match divided by the sum of weight, in exact arithmetic on the finite weights;
  undefined otherwise.
\<close>

definition exact_weight :: "criterion \<Rightarrow> real" where
  "exact_weight c = (case weight_value c of Some (Fin w) \<Rightarrow> w | _ \<Rightarrow> 0)"

definition claimed_score ::
  "(string \<Rightarrow> bound option) \<Rightarrow> gdf \<Rightarrow> criterion list \<Rightarrow> nat \<Rightarrow> float" where
  "claimed_score parse g criteria i =
     (if filter (applicable parse g i) criteria \<noteq> []
      then Some (Fin (100 * (\<Sum>c \<leftarrow> filter (applicable parse g i) criteria.
                                exact_weight c * match_value parse g i c)
                          / (\<Sum>c \<leftarrow> filter (applicable parse g i) criteria. exact_weight c)))
      else None)"

text \<open>
  A criterion whose weight is a number (or absent) and whose bounds are numbers,
  \<^verbatim>\<open>null\<close> or absent; a bool counts as a number.
\<close>

definition numeric_criterion :: "criterion \<Rightarrow> bool" where
  "numeric_criterion c =
     ((case get_weight c of JNumber w \<Rightarrow> True | JBool b \<Rightarrow> True | _ \<Rightarrow> False)
      \<and> \<not> is_string (get_min c) \<and> \<not> is_string (get_max c))"

section \<open>Example data\<close>

text \<open>A reading of texts that reads none, for tables whose cells are numbers.\<close>

definition parse_none :: "string \<Rightarrow> bound option" where
  "parse_none s = None"

text \<open>A row from its attributes; every other name is missing.\<close>

definition row_of :: "(string \<times> cell) list \<Rightarrow> string \<Rightarrow> cell" where
  "row_of kvs k = (case map_of kvs k of None \<Rightarrow> NaN | Some v \<Rightarrow> v)"

text \<open>The criterion \<^verbatim>\<open>{column, min_val, max_val, weight}\<close> of a request.\<close>

definition range_criterion :: "string \<Rightarrow> real \<Rightarrow> real \<Rightarrow> json \<Rightarrow> criterion" where
  "range_criterion name lo hi w =
     \<lparr> c_column = Some (JString name), c_field = None,
       c_min_val = Some (JNumber (Some (Fin lo))), c_range_min = None,
       c_max_val = Some (JNumber (Some (Fin hi))), c_range_max = None,
       c_weight = Some w \<rparr>"

text \<open>A finite number as a JSON value.\<close>

definition jnum :: "real \<Rightarrow> json" where
  "jnum x = JNumber (Some (Fin x))"

text \<open>
  A writing of cells as strings for the examples, none of which compares a number:
  a text is written as itself and the missing value as \<^verbatim>\<open>nan\<close>.
\<close>

definition astype_str_example :: "cell \<Rightarrow> string" where
  "astype_str_example c = (case c of Text s \<Rightarrow> s | Num x \<Rightarrow> ''<number>'' | NaN \<Rightarrow> ''nan'')"

text \<open>Mean and median without rounding, for the examples; undefined on infinite values.\<close>

fun reals_of :: "bound list \<Rightarrow> real list option" where
  "reals_of [] = Some []"
| "reals_of (Fin x # bs) = map_option ((#) x) (reals_of bs)"
| "reals_of (b # bs) = None"

definition mean_example :: "bound list \<Rightarrow> float" where
  "mean_example bs = map_option (\<lambda>xs. Fin (sum_list xs / real (length xs))) (reals_of bs)"

definition median_example :: "bound list \<Rightarrow> float" where
  "median_example bs =
     map_option
       (\<lambda>xs. let s = sort xs; n = length s
             in Fin (if even n then (s ! (n div 2 - 1) + s ! (n div 2)) / 2 else s ! (n div 2)))
       (reals_of bs)"

text \<open>The two units of the scenario \<^verbatim>\<open>[{AD: 40}, {AD: 80}]\<close>.\<close>

definition two_units :: gdf where
  "two_units = \<lparr> columns = [''AD''],
                 rows = [row_of [(''AD'', Num (Fin 40))], row_of [(''AD'', Num (Fin 80))]] \<rparr>"

text \<open>One unit with \<open>AD = 40\<close>.\<close>

definition one_unit :: gdf where
  "one_unit = \<lparr> columns = [''AD''], rows = [row_of [(''AD'', Num (Fin 40))]] \<rparr>"

text \<open>Half of the overflow threshold, the largest power of two among the doubles.\<close>

definition half_threshold :: real where
  "half_threshold = 2 ^ 1023"

text \<open>
  The doubles nearest to 0.1, 0.3 and 0.8, as Python reads these decimals, and the
  doubles that arise when they are added up and divided: 0.9, 0.4, 1.2000000000000002,
  0.7499999999999999 and 74.99999999999999.
\<close>

definition tenth :: real where
  "tenth = 7205759403792794 / 2 ^ 56"

definition three_tenths :: real where
  "three_tenths = 5404319552844595 / 2 ^ 54"

definition eight_tenths :: real where
  "eight_tenths = 7205759403792794 / 2 ^ 53"

definition nine_tenths :: real where
  "nine_tenths = 8106479329266893 / 2 ^ 53"

definition four_tenths :: real where
  "four_tenths = 7205759403792794 / 2 ^ 54"

definition twelve_tenths_up :: real where
  "twelve_tenths_up = 5404319552844596 / 2 ^ 52"

definition ratio_down :: real where
  "ratio_down = 6755399441055743 / 2 ^ 53"

definition score_down :: real where
  "score_down = 5277655813324799 / 2 ^ 46"

section \<open>Scored tables\<close>

text \<open>A cell of a score column: a number or the missing value.\<close>

fun is_score :: "cell \<Rightarrow> bool" where
  "is_score (Num x) = True"
| "is_score NaN = True"
| "is_score (Text s) = False"

text \<open>
  A table that carries scores and their labels: the columns \<^verbatim>\<open>feasibility\<close> and
  \<^verbatim>\<open>feasibility_label\<close> exist, every score cell is a number or missing, and every label
  is one of the seven bucket labels.
\<close>

definition scored :: "gdf \<Rightarrow> bool" where
  "scored g =
     (''feasibility'' \<in> set (columns g) \<and> ''feasibility_label'' \<in> set (columns g)
      \<and> list_all (\<lambda>r. is_score (r ''feasibility'')
                       \<and> r ''feasibility_label'' \<in> set (map Text all_labels)) (rows g))"

text \<open>The numbers of a score column, in order.\<close>

fun scores_of :: "cell list \<Rightarrow> bound list" where
  "scores_of [] = []"
| "scores_of (Num x # cs) = x # scores_of cs"
| "scores_of (c # cs) = scores_of cs"

text \<open>Whether a score cell holds a number that satisfies \<open>P\<close>.\<close>

fun score_satisfies :: "(bound \<Rightarrow> bool) \<Rightarrow> cell \<Rightarrow> bool" where
  "score_satisfies P (Num x) = P x"
| "score_satisfies P c = False"

section \<open>Properties of the scoring engine\<close>

subsection \<open>Rounding\<close>

lemma floor_log2_iff:
  assumes "x > 0"
  shows "\<lfloor>log 2 x\<rfloor> = k \<longleftrightarrow> 2 powi k \<le> x \<and> x < 2 powi (k + 1)"
proof -
  have a: "(2::real) powr real_of_int k = 2 powi k"
    by (simp add: powr_real_of_int')
  have b: "(2::real) powr real_of_int (k + 1) = 2 powi (k + 1)"
    by (rule powr_real_of_int') simp_all
  have "\<lfloor>log 2 x\<rfloor> = k \<longleftrightarrow> 2 powr real_of_int k \<le> x \<and> x < 2 powr real_of_int (k + 1)"
    by (rule floor_log_eq_powr_iff) (use assms in simp_all)
  then show ?thesis
    by (simp only: a b)
qed

lemma round_even_of_int: "round_even (of_int m) = m"
  by (simp add: round_even_def)

text \<open>Rounding a real whose binary exponent is known.\<close>

lemma rnd_eval:
  assumes "x \<noteq> 0"
    and "2 powi k \<le> \<bar>x\<bar>" and "\<bar>x\<bar> < 2 powi (k + 1)"
    and "e = max (k - 52) (- 1074)"
    and "round_even (x / 2 powi e) = m"
  shows "rnd x =
     (if \<bar>real_of_int m * 2 powi e\<bar> \<ge> overflow_threshold
      then (if x > 0 then PosInf else NegInf)
      else Fin (real_of_int m * 2 powi e))"
proof -
  have "\<bar>x\<bar> > 0" using assms(1) by simp
  then have "\<lfloor>log 2 \<bar>x\<bar>\<rfloor> = k"
    using floor_log2_iff [of "\<bar>x\<bar>" k] assms(2,3) by simp
  then show ?thesis
    using assms(1,4,5) by (simp only: rnd_def Let_def if_False)
qed

text \<open>A real that is a double rounds to itself.\<close>

lemma rnd_exact:
  assumes x: "x = of_int m * 2 powi j"
    and m: "\<bar>m\<bar> < 2 ^ 53"
    and j: "- 1074 \<le> j"
    and fin: "\<bar>x\<bar> < overflow_threshold"
  shows "rnd x = Fin x"
proof (cases "x = 0")
  case True
  then show ?thesis by (simp add: rnd_def)
next
  case False
  define k where "k = \<lfloor>log 2 \<bar>x\<bar>\<rfloor>"
  define e where "e = max (k - 52) (- 1074)"
  have pos: "\<bar>x\<bar> > 0" using False by simp
  have k: "2 powi k \<le> \<bar>x\<bar>" "\<bar>x\<bar> < 2 powi (k + 1)"
    using floor_log2_iff [OF pos, of k] by (simp_all add: k_def)
  have absx: "\<bar>x\<bar> = of_int \<bar>m\<bar> * 2 powi j"
    by (simp add: x abs_mult power_int_abs)
  have "of_int \<bar>m\<bar> < (2::real) ^ 53"
    using m by (metis of_int_less_iff of_int_numeral of_int_power)
  then have "\<bar>x\<bar> < 2 ^ 53 * 2 powi j"
    unfolding absx by (simp add: mult_strict_right_mono)
  also have "\<dots> = 2 powi (53 + j)"
    by (simp add: power_int_add)
  finally have "(2::real) powi k < 2 powi (53 + j)"
    using k(1) by simp
  then have "k < 53 + j"
    by (smt (verit) power_int_increasing)
  then have ej: "e \<le> j"
    using j by (simp add: e_def)
  then obtain d where d: "j = e + int d"
    by (metis zle_iff_zadd)
  have "x / 2 powi e = of_int m * 2 powi (j - e)"
    by (simp add: x power_int_diff)
  also have "\<dots> = of_int (m * 2 ^ d)"
    using d by (simp add: power_int_def)
  finally have q: "x / 2 powi e = of_int (m * 2 ^ d)" .
  then have r: "round_even (x / 2 powi e) = m * 2 ^ d"
    by (simp only: round_even_of_int)
  have y: "real_of_int (m * 2 ^ d) * 2 powi e = x"
    using q by (simp add: field_simps)
  show ?thesis
    using rnd_eval [OF False k e_def r] fin by (simp only: y) simp
qed

lemma rnd_of_int: "\<bar>m\<bar> < 2 ^ 53 \<Longrightarrow> rnd (of_int m) = Fin (of_int m)"
proof -
  assume m: "\<bar>m\<bar> < 2 ^ 53"
  then have "\<bar>real_of_int m\<bar> < 2 ^ 53"
    by (metis of_int_abs of_int_less_iff of_int_numeral of_int_power)
  also have "\<dots> < (2::real) ^ 1024"
    by (rule power_strict_increasing) simp_all
  finally have "\<bar>real_of_int m\<bar> < overflow_threshold"
    by (simp only: overflow_threshold_def)
  then show ?thesis
    using rnd_exact [of "of_int m" m 0] m by simp
qed

lemma rnd_small_numbers:
  "rnd 0 = Fin 0" "rnd 1 = Fin 1" "rnd 3 = Fin 3" "rnd 4 = Fin 4" "rnd 75 = Fin 75"
  "rnd 100 = Fin 100"
  using rnd_of_int [of 0] rnd_of_int [of 1] rnd_of_int [of 3] rnd_of_int [of 4]
    rnd_of_int [of 75] rnd_of_int [of 100]
  by simp_all

lemma rnd_three_quarters: "rnd (3 / 4) = Fin (3 / 4)"
proof -
  have "\<bar>3 / 4 :: real\<bar> < 2 ^ 1024"
    by (rule less_le_trans [of _ 1]) simp_all
  then show ?thesis
    using rnd_exact [of "3 / 4" 3 "- 2"] by (simp add: overflow_threshold_def)
qed

text \<open>The overflow threshold itself rounds to infinity; half of it is a double.\<close>

lemma rnd_overflow: "rnd overflow_threshold = PosInf"
proof -
  have pos: "overflow_threshold > 0"
    by (simp only: overflow_threshold_def zero_less_power zero_less_numeral)
  have t: "overflow_threshold = 2 powi 1024"
    by (simp only: overflow_threshold_def power_int_numeral)
  have "(2::real) powi (1024 - 972) = 2 powi 1024 / 2 powi 972"
    by (rule power_int_diff) simp
  moreover have "(2::real) powi (1024 - 972) = real_of_int (2 ^ 52)"
    by simp
  ultimately have q: "overflow_threshold / 2 powi 972 = real_of_int (2 ^ 52)"
    by (simp only: t)
  have r: "round_even (overflow_threshold / 2 powi 972) = 2 ^ 52"
    by (simp only: q round_even_of_int)
  have y: "real_of_int (2 ^ 52) * 2 powi 972 = overflow_threshold"
    using q by (simp add: field_simps)
  have k1: "2 powi 1024 \<le> \<bar>overflow_threshold\<bar>"
    using pos t by simp
  have k2: "\<bar>overflow_threshold\<bar> < 2 powi (1024 + 1)"
    using pos unfolding t by (simp only: abs_of_pos) (rule power_int_strict_increasing, simp_all)
  have "rnd overflow_threshold =
     (if \<bar>real_of_int (2 ^ 52) * 2 powi 972\<bar> \<ge> overflow_threshold
      then (if overflow_threshold > 0 then PosInf else NegInf)
      else Fin (real_of_int (2 ^ 52) * 2 powi 972))"
    using pos by (intro rnd_eval [OF _ k1 k2 _ r]) simp_all
  then show ?thesis
    using pos by (simp only: y) simp
qed

lemma half_threshold_pos: "half_threshold > 0"
  by (simp only: half_threshold_def zero_less_power zero_less_numeral)

lemma half_threshold_double: "half_threshold + half_threshold = overflow_threshold"
proof -
  have "(2::real) ^ Suc 1023 = 2 * 2 ^ 1023"
    by (rule power_Suc)
  moreover have "Suc 1023 = 1024" by simp
  ultimately have "(2::real) ^ 1024 = 2 * 2 ^ 1023"
    by (simp only:)
  then show ?thesis
    by (simp only: half_threshold_def overflow_threshold_def)
qed

lemma rnd_half_threshold: "rnd half_threshold = Fin half_threshold"
proof -
  have lt: "\<bar>half_threshold\<bar> < overflow_threshold"
    using half_threshold_pos half_threshold_double by linarith
  have "half_threshold = real_of_int 1 * 2 powi 1023"
    by (simp only: half_threshold_def power_int_numeral of_int_1 mult_1)
  then show ?thesis
    using lt by (intro rnd_exact [where m = 1 and j = 1023]) simp_all
qed

subsection \<open>The weighted score\<close>

lemma length_calculate_criteria_match:
  "calculate_criteria_match parse g column lo hi = Inr match \<Longrightarrow> length match = length (rows g)"
  by (auto simp: calculate_criteria_match_def split: if_splits)

lemma length_add_matches:
  "length match = length acc \<Longrightarrow> length (add_matches acc match w) = length acc"
  by (simp add: add_matches_def)

lemma length_add_applicable:
  "length match = length acc \<Longrightarrow> length (add_applicable acc match w) = length acc"
  by (simp add: add_applicable_def)

lemma accumulate_length:
  "accumulate parse g cs (wm, wa) = Inr (wm', wa') \<Longrightarrow>
   length wm = length (rows g) \<Longrightarrow> length wa = length (rows g) \<Longrightarrow>
   length wm' = length (rows g) \<and> length wa' = length (rows g)"
proof (induction cs arbitrary: wm wa)
  case Nil
  then show ?case by simp
next
  case (Cons c cs)
  show ?case
  proof (cases "get_column c")
    case None
    with Cons show ?thesis by simp
  next
    case (Some column)
    from Cons.prems(1) Some obtain match w
      where m: "calculate_criteria_match parse g column (get_min c) (get_max c) = Inr match"
        and w: "weight_operand match (get_weight c) = Inr w"
        and rest: "accumulate parse g cs
                     (add_matches wm match w, add_applicable wa match w) = Inr (wm', wa')"
      by (auto split: sum.splits)
    have lm: "length match = length (rows g)"
      using m by (rule length_calculate_criteria_match)
    have "length (add_matches wm match w) = length (rows g)"
      using Cons.prems lm by (simp add: length_add_matches)
    moreover have "length (add_applicable wa match w) = length (rows g)"
      using Cons.prems lm by (simp add: length_add_applicable)
    ultimately show ?thesis
      using Cons.IH [OF rest] by simp
  qed
qed

lemma match_nth:
  "calculate_criteria_match parse g column (get_min c) (get_max c) = Inr match \<Longrightarrow>
   i < length (rows g) \<Longrightarrow> get_column c = Some column \<Longrightarrow>
   match ! i = (if applicable parse g i c then Some (Fin (match_value parse g i c)) else None)"
  by (auto simp: calculate_criteria_match_def applicable_def match_value_def
           split: option.splits if_splits)

lemma add_matches_nth:
  "i < length acc \<Longrightarrow> length match = length acc \<Longrightarrow>
   add_matches acc match w ! i =
     (case match ! i of None \<Rightarrow> acc ! i | Some x \<Rightarrow> fadd (acc ! i) (fmul (Some x) w))"
  by (simp add: add_matches_def)

lemma add_applicable_nth:
  "i < length acc \<Longrightarrow> length match = length acc \<Longrightarrow>
   add_applicable acc match w ! i = (case match ! i of None \<Rightarrow> acc ! i | Some x \<Rightarrow> fadd (acc ! i) w)"
  by (simp add: add_applicable_def)

text \<open>A weight that did not raise on a series with a match is the criterion's number.\<close>

lemma weight_operand_value:
  "weight_operand match j = Inr w \<Longrightarrow> i < length match \<Longrightarrow> match ! i \<noteq> None \<Longrightarrow>
   w = number_of j"
  by (cases j) (auto simp: list_ex_length split: if_splits)

lemma accumulate_nth:
  "accumulate parse g cs (wm, wa) = Inr (wm', wa') \<Longrightarrow>
   i < length (rows g) \<Longrightarrow> length wm = length (rows g) \<Longrightarrow> length wa = length (rows g) \<Longrightarrow>
   wm' ! i = foldl fadd (wm ! i)
               (map (\<lambda>c. fmul (Some (Fin (match_value parse g i c))) (weight_value c))
                    (filter (applicable parse g i) cs)) \<and>
   wa' ! i = foldl fadd (wa ! i) (map weight_value (filter (applicable parse g i) cs))"
proof (induction cs arbitrary: wm wa)
  case Nil
  then show ?case by simp
next
  case (Cons c cs)
  show ?case
  proof (cases "get_column c")
    case None
    then have "\<not> applicable parse g i c" by (simp add: applicable_def)
    with None Cons show ?thesis by simp
  next
    case (Some column)
    from Cons.prems(1) Some obtain match w
      where m: "calculate_criteria_match parse g column (get_min c) (get_max c) = Inr match"
        and w: "weight_operand match (get_weight c) = Inr w"
        and rest: "accumulate parse g cs
                     (add_matches wm match w, add_applicable wa match w) = Inr (wm', wa')"
      by (auto split: sum.splits)
    let ?wm = "add_matches wm match w"
    let ?wa = "add_applicable wa match w"
    have lm: "length match = length (rows g)"
      using m by (rule length_calculate_criteria_match)
    have l1: "length ?wm = length (rows g)"
      using Cons.prems lm by (simp add: length_add_matches)
    have l2: "length ?wa = length (rows g)"
      using Cons.prems lm by (simp add: length_add_applicable)
    have ih: "wm' ! i = foldl fadd (?wm ! i)
               (map (\<lambda>c. fmul (Some (Fin (match_value parse g i c))) (weight_value c))
                    (filter (applicable parse g i) cs)) \<and>
              wa' ! i = foldl fadd (?wa ! i) (map weight_value (filter (applicable parse g i) cs))"
      using Cons.IH [OF rest Cons.prems(2) l1 l2] .
    have mi: "match ! i =
        (if applicable parse g i c then Some (Fin (match_value parse g i c)) else None)"
      using m Cons.prems(2) Some by (rule match_nth)
    have wv: "applicable parse g i c \<Longrightarrow> w = weight_value c"
      using weight_operand_value [OF w, of i] mi lm Cons.prems(2)
      by (simp add: weight_value_def)
    have a: "?wm ! i =
        (if applicable parse g i c
         then fadd (wm ! i) (fmul (Some (Fin (match_value parse g i c))) (weight_value c))
         else wm ! i)"
      using Cons.prems lm mi wv by (simp add: add_matches_nth)
    have b: "?wa ! i = (if applicable parse g i c then fadd (wa ! i) (weight_value c) else wa ! i)"
      using Cons.prems lm mi wv by (simp add: add_applicable_nth)
    show ?thesis
      using ih a b by simp
  qed
qed

lemma length_calculate_feasibility:
  assumes "calculate_feasibility parse g criteria logic = Inr scores"
  shows "length scores = length (rows g)"
proof (cases "criteria = []")
  case True
  with assms show ?thesis by (auto simp: calculate_feasibility_def)
next
  case False
  from assms False obtain wm wa where acc: "accumulate parse g criteria
      (replicate (length (rows g)) (Some (Fin 0)), replicate (length (rows g)) (Some (Fin 0)))
        = Inr (wm, wa)"
    and sc: "scores = map (\<lambda>(m, a). if gt_zero a then fmul (fdiv m a) (Some (Fin 100)) else None)
                         (zip wm wa)"
    by (auto simp: calculate_feasibility_def split: sum.splits prod.splits)
  have "length wm = length (rows g) \<and> length wa = length (rows g)"
    using accumulate_length [OF acc] by simp
  with sc show ?thesis by simp
qed

lemma calculate_feasibility_nth:
  assumes "calculate_feasibility parse g criteria logic = Inr scores"
    and "i < length (rows g)"
  shows "scores ! i =
     (if gt_zero (applicable_weight parse g criteria i)
      then fmul (fdiv (matched_weight parse g criteria i) (applicable_weight parse g criteria i))
                (Some (Fin 100))
      else None)"
proof (cases "criteria = []")
  case True
  with assms show ?thesis
    by (auto simp: calculate_feasibility_def applicable_weight_def)
next
  case False
  from assms(1) False obtain wm wa where acc: "accumulate parse g criteria
      (replicate (length (rows g)) (Some (Fin 0)), replicate (length (rows g)) (Some (Fin 0)))
        = Inr (wm, wa)"
    and sc: "scores = map (\<lambda>(m, a). if gt_zero a then fmul (fdiv m a) (Some (Fin 100)) else None)
                         (zip wm wa)"
    by (auto simp: calculate_feasibility_def split: sum.splits prod.splits)
  have len: "length wm = length (rows g) \<and> length wa = length (rows g)"
    using accumulate_length [OF acc] by simp
  have nth: "wm ! i = matched_weight parse g criteria i
           \<and> wa ! i = applicable_weight parse g criteria i"
    using accumulate_nth [OF acc assms(2)] assms(2)
    by (simp add: matched_weight_def applicable_weight_def)
  show ?thesis
    using sc len nth assms(2) by simp
qed

text \<open>Criteria that are all numeric never raise.\<close>

lemma accumulate_numeric:
  "list_all numeric_criterion cs \<Longrightarrow> \<exists>acc'. accumulate parse g cs (wm, wa) = Inr acc'"
proof (induction cs arbitrary: wm wa)
  case Nil
  then show ?case by simp
next
  case (Cons c cs)
  then have c: "numeric_criterion c" and cs: "list_all numeric_criterion cs" by simp_all
  show ?case
  proof (cases "get_column c")
    case None
    with Cons.IH [OF cs] show ?thesis by simp
  next
    case (Some column)
    have "\<exists>match. calculate_criteria_match parse g column (get_min c) (get_max c) = Inr match"
      using c by (simp add: calculate_criteria_match_def numeric_criterion_def)
    then obtain match where m: "calculate_criteria_match parse g column (get_min c) (get_max c)
        = Inr match"
      by (elim exE)
    have "\<exists>w. weight_operand match (get_weight c) = Inr w"
      using c by (cases "get_weight c") (simp_all add: numeric_criterion_def)
    then obtain w where w: "weight_operand match (get_weight c) = Inr w"
      by (elim exE)
    show ?thesis
      using Some m w Cons.IH [OF cs] by simp
  qed
qed

lemma calculate_feasibility_numeric:
  assumes "list_all numeric_criterion criteria"
  shows "\<exists>scores. calculate_feasibility parse g criteria logic = Inr scores"
proof (cases "criteria = []")
  case True
  then show ?thesis by (simp add: calculate_feasibility_def)
next
  case False
  obtain acc' where "accumulate parse g criteria
      (replicate (length (rows g)) (Some (Fin 0)), replicate (length (rows g)) (Some (Fin 0)))
        = Inr acc'"
    using accumulate_numeric [OF assms, of parse g "replicate (length (rows g)) (Some (Fin 0))"
        "replicate (length (rows g)) (Some (Fin 0))"]
    by (elim exE)
  with False show ?thesis
    by (cases acc') (simp add: calculate_feasibility_def)
qed

text \<open>
  C1 (as amended). For every table, criteria list and unit for which the scoring
  returns: the score is computed in doubles. With \<open>A\<close> the sum of the weights of the
  criteria applicable to the unit and \<open>M\<close> the sum of their match times weight, both added
  up in doubles in the order of the list, the score is \<open>(M / A) * 100\<close>, each operation
  rounded, when \<open>A > 0\<close>; when \<open>A\<close> is not greater than zero, and in particular when no
  criterion is applicable or the list is empty, the score is undefined. With two
  applicable criteria of weights 1 and 3 of which the unit matches only the second, the
  score is exactly 75.
\<close>

theorem calculate_feasibility_weighted_ratio:
  assumes "calculate_feasibility parse g criteria logic = Inr scores"
    and "i < length (rows g)"
  shows "(gt_zero (applicable_weight parse g criteria i) \<longrightarrow>
            scores ! i =
              fmul (fdiv (matched_weight parse g criteria i) (applicable_weight parse g criteria i))
                   (Some (Fin 100)))
       \<and> (\<not> gt_zero (applicable_weight parse g criteria i) \<longrightarrow> scores ! i = None)
       \<and> (filter (applicable parse g i) criteria = [] \<longrightarrow> scores ! i = None)
       \<and> (criteria = [c1, c2] \<and> weight_value c1 = Some (Fin 1) \<and> weight_value c2 = Some (Fin 3)
            \<and> applicable parse g i c1 \<and> applicable parse g i c2
            \<and> match_value parse g i c1 = 0 \<and> match_value parse g i c2 = 1 \<longrightarrow>
            scores ! i = Some (Fin 75))"
proof -
  have nth: "scores ! i =
     (if gt_zero (applicable_weight parse g criteria i)
      then fmul (fdiv (matched_weight parse g criteria i) (applicable_weight parse g criteria i))
                (Some (Fin 100))
      else None)"
    using assms by (rule calculate_feasibility_nth)
  have a: "gt_zero (applicable_weight parse g criteria i) \<longrightarrow>
            scores ! i =
              fmul (fdiv (matched_weight parse g criteria i) (applicable_weight parse g criteria i))
                   (Some (Fin 100))"
    using nth by simp
  have b: "\<not> gt_zero (applicable_weight parse g criteria i) \<longrightarrow> scores ! i = None"
    using nth by simp
  have c: "filter (applicable parse g i) criteria = [] \<longrightarrow> scores ! i = None"
    using nth by (simp add: applicable_weight_def)
  have d: "criteria = [c1, c2] \<and> weight_value c1 = Some (Fin 1) \<and> weight_value c2 = Some (Fin 3)
            \<and> applicable parse g i c1 \<and> applicable parse g i c2
            \<and> match_value parse g i c1 = 0 \<and> match_value parse g i c2 = 1 \<longrightarrow>
            scores ! i = Some (Fin 75)"
  proof
    assume h: "criteria = [c1, c2] \<and> weight_value c1 = Some (Fin 1) \<and> weight_value c2 = Some (Fin 3)
            \<and> applicable parse g i c1 \<and> applicable parse g i c2
            \<and> match_value parse g i c1 = 0 \<and> match_value parse g i c2 = 1"
    then have "applicable_weight parse g criteria i = Some (Fin 4)"
      by (simp add: applicable_weight_def fadd_def rnd_small_numbers)
    moreover have "matched_weight parse g criteria i = Some (Fin 3)"
      using h by (simp add: matched_weight_def fadd_def fmul_def rnd_small_numbers)
    ultimately show "scores ! i = Some (Fin 75)"
      using nth by (simp add: fdiv_def fmul_def rnd_three_quarters rnd_small_numbers)
  qed
  show ?thesis using a b c d by blast
qed

lemmas example_defs = parse_none_def row_of_def range_criterion_def jnum_def applicable_def
  match_value_def weight_value_def get_column_def get_min_def get_max_def get_weight_def
  ge_json_def le_json_def one_unit_def two_units_def

text \<open>
  One unit with \<open>AD = 40\<close> and \<open>BF = 5\<close>: it misses the weight-1 range on \<open>BF\<close> and
  meets the weight-3 range on \<open>AD\<close>, so its score is 75.
\<close>

theorem calculate_feasibility_weighted_ratio_witness:
  "\<not> isl (calculate_feasibility parse_none
       \<lparr> columns = [''AD'', ''BF''],
         rows = [row_of [(''AD'', Num (Fin 40)), (''BF'', Num (Fin 5))]] \<rparr>
       [range_criterion ''BF'' 10 20 (jnum 1), range_criterion ''AD'' 20 60 (jnum 3)] ''AND'')
   \<and> projr (calculate_feasibility parse_none
       \<lparr> columns = [''AD'', ''BF''],
         rows = [row_of [(''AD'', Num (Fin 40)), (''BF'', Num (Fin 5))]] \<rparr>
       [range_criterion ''BF'' 10 20 (jnum 1), range_criterion ''AD'' 20 60 (jnum 3)] ''AND'') ! 0
     = Some (Fin 75)"
proof -
  let ?g = "\<lparr> columns = [''AD'', ''BF''],
              rows = [row_of [(''AD'', Num (Fin 40)), (''BF'', Num (Fin 5))]] \<rparr>"
  let ?c1 = "range_criterion ''BF'' 10 20 (jnum 1)"
  let ?c2 = "range_criterion ''AD'' 20 60 (jnum 3)"
  let ?r = "calculate_feasibility parse_none ?g [?c1, ?c2] ''AND''"
  have "list_all numeric_criterion [?c1, ?c2]"
    by (simp add: numeric_criterion_def example_defs)
  then have "\<exists>scores. ?r = Inr scores"
    by (rule calculate_feasibility_numeric)
  then have ok: "?r = Inr (projr ?r)"
    by auto
  have facts: "weight_value ?c1 = Some (Fin 1) \<and> weight_value ?c2 = Some (Fin 3)
      \<and> applicable parse_none ?g 0 ?c1 \<and> applicable parse_none ?g 0 ?c2
      \<and> match_value parse_none ?g 0 ?c1 = 0 \<and> match_value parse_none ?g 0 ?c2 = 1"
    by (simp add: example_defs)
  have "projr ?r ! 0 = Some (Fin 75)"
    using calculate_feasibility_weighted_ratio [OF ok, of 0 ?c1 ?c2] facts by simp
  then show ?thesis
    using ok by (metis sum.disc(2))
qed

text \<open>Rounding a real of a known binary exponent in the normal range.\<close>

lemma rnd_step:
  assumes "x \<noteq> 0"
    and "2 powi k \<le> \<bar>x\<bar>" and "\<bar>x\<bar> < 2 powi (k + 1)"
    and "- 1022 \<le> k" and "k < 1023"
    and "round_even (x / 2 powi (k - 52)) = m"
    and "\<bar>m\<bar> < 2 ^ 53"
  shows "rnd x = Fin (real_of_int m * 2 powi (k - 52))"
proof -
  have e: "k - 52 = max (k - 52) (- 1074)"
    using assms(4) by simp
  have "\<bar>real_of_int m\<bar> < 2 ^ 53"
    using assms(7) by (metis of_int_abs of_int_less_iff of_int_numeral of_int_power)
  then have "\<bar>real_of_int m * 2 powi (k - 52)\<bar> < 2 ^ 53 * 2 powi (k - 52)"
    by (simp add: abs_mult power_int_abs mult_strict_right_mono)
  also have "\<dots> = 2 powi (k + 1)"
  proof -
    have "(2::real) powi 53 * 2 powi (k - 52) = 2 powi (53 + (k - 52))"
      by (rule power_int_add [symmetric]) simp
    moreover have "(2::real) powi 53 = 2 ^ 53"
      by (simp only: power_int_numeral)
    moreover have "53 + (k - 52) = k + 1"
      by simp
    ultimately show ?thesis
      by (simp only:)
  qed
  also have "\<dots> \<le> 2 powi 1024"
    using assms(5) by (intro power_int_increasing) simp_all
  finally have "\<bar>real_of_int m * 2 powi (k - 52)\<bar> < overflow_threshold"
    by (simp only: overflow_threshold_def power_int_numeral)
  then show ?thesis
    using rnd_eval [OF assms(1,2,3) e assms(6)] by simp
qed

lemma rnd_tenth: "rnd tenth = Fin tenth"
proof -
  have "rnd tenth = Fin (real_of_int 7205759403792794 * 2 powi (- 4 - 52))"
    by (rule rnd_step) (simp_all add: tenth_def round_even_def)
  then show ?thesis by (simp add: tenth_def)
qed

lemma rnd_eight_tenths: "rnd eight_tenths = Fin eight_tenths"
proof -
  have "rnd eight_tenths = Fin (real_of_int 7205759403792794 * 2 powi (- 1 - 52))"
    by (rule rnd_step) (simp_all add: eight_tenths_def round_even_def)
  then show ?thesis by (simp add: eight_tenths_def)
qed

lemma rnd_nine_tenths: "rnd (tenth + eight_tenths) = Fin nine_tenths"
proof -
  have "rnd (tenth + eight_tenths) = Fin (real_of_int 8106479329266893 * 2 powi (- 1 - 52))"
    by (rule rnd_step) (simp_all add: tenth_def eight_tenths_def round_even_def)
  then show ?thesis by (simp add: nine_tenths_def)
qed

lemma rnd_four_tenths: "rnd (tenth + three_tenths) = Fin four_tenths"
proof -
  have "rnd (tenth + three_tenths) = Fin (real_of_int 7205759403792794 * 2 powi (- 2 - 52))"
    by (rule rnd_step) (simp_all add: tenth_def three_tenths_def round_even_def)
  then show ?thesis by (simp add: four_tenths_def)
qed

lemma rnd_twelve_tenths: "rnd (four_tenths + eight_tenths) = Fin twelve_tenths_up"
proof -
  have "rnd (four_tenths + eight_tenths) = Fin (real_of_int 5404319552844596 * 2 powi (0 - 52))"
    by (rule rnd_step) (simp_all add: four_tenths_def eight_tenths_def round_even_def)
  then show ?thesis by (simp add: twelve_tenths_up_def)
qed

lemma rnd_ratio: "rnd (nine_tenths / twelve_tenths_up) = Fin ratio_down"
proof -
  have "rnd (nine_tenths / twelve_tenths_up)
        = Fin (real_of_int 6755399441055743 * 2 powi (- 1 - 52))"
    by (rule rnd_step) (simp_all add: nine_tenths_def twelve_tenths_up_def round_even_def)
  then show ?thesis by (simp add: ratio_down_def)
qed

lemma rnd_score: "rnd (ratio_down * 100) = Fin score_down"
proof -
  have "rnd (ratio_down * 100) = Fin (real_of_int 5277655813324799 * 2 powi (6 - 52))"
    by (rule rnd_step) (simp_all add: ratio_down_def round_even_def)
  then show ?thesis by (simp add: score_down_def)
qed

lemma twelve_tenths_pos: "twelve_tenths_up > 0"
  by (simp add: twelve_tenths_up_def)

lemma rounded_weights_score:
  "calculate_feasibility parse_none one_unit
     [range_criterion ''AD'' 20 60 (jnum tenth),
      range_criterion ''AD'' 50 60 (jnum three_tenths),
      range_criterion ''AD'' 20 60 (jnum eight_tenths)] ''AND''
   = Inr [Some (Fin score_down)]"
  using twelve_tenths_pos
  by (simp add: calculate_feasibility_def calculate_criteria_match_def add_matches_def
        add_applicable_def fadd_def fmul_def fdiv_def rnd_small_numbers rnd_tenth
        rnd_eight_tenths rnd_nine_tenths rnd_four_tenths rnd_twelve_tenths rnd_ratio rnd_score
        example_defs)

lemma rounded_weights_claimed:
  "fst (classify_feasibility
          (claimed_score parse_none one_unit
             [range_criterion ''AD'' 20 60 (jnum tenth),
              range_criterion ''AD'' 50 60 (jnum three_tenths),
              range_criterion ''AD'' 20 60 (jnum eight_tenths)] 0)) = ''high''"
  by (simp add: claimed_score_def exact_weight_def classify_feasibility_def example_defs
        tenth_def three_tenths_def eight_tenths_def)

lemma rounded_weights_class:
  "fst (classify_feasibility (Some (Fin score_down))) = ''moderate_high''"
  by (simp add: classify_feasibility_def score_down_def)

lemma zero_weight_score:
  "calculate_feasibility parse_none one_unit [range_criterion ''AD'' 20 60 (jnum 0)] ''AND''
   = Inr [None]"
  by (simp add: calculate_feasibility_def calculate_criteria_match_def add_matches_def
        add_applicable_def fadd_def fmul_def rnd_small_numbers example_defs)

lemma overflowing_weights_score:
  "calculate_feasibility parse_none one_unit
     [range_criterion ''AD'' 20 60 (jnum half_threshold),
      range_criterion ''AD'' 20 60 (jnum half_threshold)] ''AND''
   = Inr [None]"
  by (simp add: calculate_feasibility_def calculate_criteria_match_def add_matches_def
        add_applicable_def fadd_def fmul_def fdiv_def rnd_small_numbers rnd_half_threshold
        half_threshold_double rnd_overflow example_defs)

lemma overflowing_weights_claimed:
  "claimed_score parse_none one_unit
     [range_criterion ''AD'' 20 60 (jnum half_threshold),
      range_criterion ''AD'' 20 60 (jnum half_threshold)] 0
   = Some (Fin 100)"
  using half_threshold_pos
  by (simp add: claimed_score_def exact_weight_def example_defs)

text \<open>
  C1 as worded fails on a unit with \<open>AD = 40\<close>. A single criterion on \<open>AD\<close> of weight 0
  is applicable, yet the score is undefined, because the code requires the applicable
  weight to be positive. With weights 0.1, 0.3 and 0.8, of which the unit matches the
  first and the last, the worded ratio on these doubles is at least 75 and classifies as
  \<open>high\<close>; the code's sums round to 0.9 and 1.2000000000000002, and its score
  74.99999999999999 classifies as \<open>moderate_high\<close>. Two criteria that the unit matches,
  each of weight \<open>2 ^ 1023\<close>, give the worded ratio 100; in doubles the sum of the
  weights overflows to infinity, and the score, infinity divided by infinity, is undefined.
\<close>

theorem score_defined_when_applicable_counterexample:
  "applicable parse_none one_unit 0 (range_criterion ''AD'' 20 60 (jnum 0))
   \<and> calculate_feasibility parse_none one_unit [range_criterion ''AD'' 20 60 (jnum 0)] ''AND''
       = Inr [None]
   \<and> fst (classify_feasibility
            (claimed_score parse_none one_unit
               [range_criterion ''AD'' 20 60 (jnum tenth),
                range_criterion ''AD'' 50 60 (jnum three_tenths),
                range_criterion ''AD'' 20 60 (jnum eight_tenths)] 0)) = ''high''
   \<and> calculate_feasibility parse_none one_unit
       [range_criterion ''AD'' 20 60 (jnum tenth),
        range_criterion ''AD'' 50 60 (jnum three_tenths),
        range_criterion ''AD'' 20 60 (jnum eight_tenths)] ''AND''
       = Inr [Some (Fin score_down)]
   \<and> fst (classify_feasibility (Some (Fin score_down))) = ''moderate_high''
   \<and> claimed_score parse_none one_unit
       [range_criterion ''AD'' 20 60 (jnum half_threshold),
        range_criterion ''AD'' 20 60 (jnum half_threshold)] 0
       = Some (Fin 100)
   \<and> calculate_feasibility parse_none one_unit
       [range_criterion ''AD'' 20 60 (jnum half_threshold),
        range_criterion ''AD'' 20 60 (jnum half_threshold)] ''AND''
       = Inr [None]"
proof -
  have "applicable parse_none one_unit 0 (range_criterion ''AD'' 20 60 (jnum 0))"
    by (simp add: example_defs)
  then show ?thesis
    using zero_weight_score rounded_weights_claimed rounded_weights_score rounded_weights_class
      overflowing_weights_claimed overflowing_weights_score
    by (simp only:)
qed

subsection \<open>Matching one criterion\<close>

text \<open>
  C3. For every criterion (column, min, max) with numeric bounds and every unit of the
  table: the function returns a match series with one entry per unit; if the column is
  absent from the table the unit's match is missing; if the unit's value does not coerce
  to a number the match is missing; and if it coerces to \<open>v\<close> the match is 1 exactly when
  \<open>min \<le> v \<le> max\<close> and 0 otherwise. With finite bounds and a finite value the test is
  \<open>a \<le> x \<and> x \<le> b\<close>, so a value equal to either bound matches.
\<close>

theorem calculate_criteria_match_inclusive:
  assumes "i < length (rows g)"
  shows "\<exists>match.
       calculate_criteria_match parse g (JString column) (JNumber (Some lo)) (JNumber (Some hi)) = Inr match
       \<and> length match = length (rows g)
       \<and> (column \<notin> set (columns g) \<longrightarrow> match ! i = None)
       \<and> (column \<in> set (columns g) \<and> to_numeric parse ((rows g ! i) column) = None \<longrightarrow>
            match ! i = None)
       \<and> (column \<in> set (columns g) \<and> to_numeric parse ((rows g ! i) column) = Some v \<longrightarrow>
            match ! i = Some (Fin (if ge_bound v lo \<and> le_bound v hi then 1 else 0)))
       \<and> (lo = Fin a \<and> hi = Fin b \<and> column \<in> set (columns g)
            \<and> to_numeric parse ((rows g ! i) column) = Some (Fin x) \<longrightarrow>
            match ! i = Some (Fin (if a \<le> x \<and> x \<le> b then 1 else 0)))
       \<and> (lo = Fin a \<and> hi = Fin b \<and> a \<le> b \<and> column \<in> set (columns g)
            \<and> (to_numeric parse ((rows g ! i) column) = Some (Fin a)
                \<or> to_numeric parse ((rows g ! i) column) = Some (Fin b)) \<longrightarrow>
            match ! i = Some (Fin 1))"
  using assms by (auto simp: calculate_criteria_match_def ge_json_def le_json_def)

text \<open>
  Units with \<open>AD\<close> equal to 20, 60, 61, a text and a missing value against the range
  from 20 to 60: both bounds match, 61 does not, the other two are missing; on a column
  the table does not have, every match is missing.
\<close>

theorem calculate_criteria_match_inclusive_witness:
  "calculate_criteria_match parse_none
     \<lparr> columns = [''AD''],
       rows = [row_of [(''AD'', Num (Fin 20))], row_of [(''AD'', Num (Fin 60))],
               row_of [(''AD'', Num (Fin 61))], row_of [(''AD'', Text ''n/a'')], row_of []] \<rparr>
     (JString ''AD'') (JNumber (Some (Fin 20))) (JNumber (Some (Fin 60)))
     = Inr [Some (Fin 1), Some (Fin 1), Some (Fin 0), None, None]
   \<and> projr (calculate_criteria_match parse_none
     \<lparr> columns = [''AD''], rows = [row_of [(''AD'', Num (Fin 20))]] \<rparr>
     (JString ''BF'') (JNumber (Some (Fin 20))) (JNumber (Some (Fin 60)))) ! 0 = None"
  using calculate_criteria_match_inclusive
     [of 0 "\<lparr> columns = [''AD''], rows = [row_of [(''AD'', Num (Fin 20))]] \<rparr>"
         parse_none "''BF''" "Fin 20" "Fin 60" "Fin 20" 20 60 20]
  by (auto simp: calculate_criteria_match_def parse_none_def row_of_def ge_json_def le_json_def)

subsection \<open>The logic mode\<close>

text \<open>
  C7. For every table and criteria list, the scores computed with logic mode
  \<^verbatim>\<open>"OR"\<close> are the scores computed with \<^verbatim>\<open>"AND"\<close>, and so is an error where the
  scoring raises one; indeed the outcome is the same for any two values of the logic
  parameter.
\<close>

theorem calculate_feasibility_logic_ignored:
  "calculate_feasibility parse g criteria ''OR'' = calculate_feasibility parse g criteria ''AND''
   \<and> calculate_feasibility parse g criteria logic = calculate_feasibility parse g criteria logic'"
  by (simp add: calculate_feasibility_def)

subsection \<open>Classification\<close>

text \<open>
  C2. \<^verbatim>\<open>classify_feasibility\<close> tests inclusive lower bounds from the top: a score of
  at least 100 is \<open>very_high\<close>, from 75 up to 100 \<open>high\<close>, from 50 up to 75
  \<open>moderate_high\<close>, from 25 up to 50 \<open>moderate\<close>, from 1 up to 25 \<open>low\<close>, below 1
  \<open>very_low\<close>, and an undefined score is \<open>no_data\<close>; plus infinity is \<open>very_high\<close>
  and minus infinity \<open>very_low\<close>. Each class has one display label and one colour.
\<close>

theorem classify_feasibility_thresholds:
  "(v \<ge> 100 \<longrightarrow> fst (classify_feasibility (Some (Fin v))) = ''very_high'')
   \<and> (75 \<le> v \<and> v < 100 \<longrightarrow> fst (classify_feasibility (Some (Fin v))) = ''high'')
   \<and> (50 \<le> v \<and> v < 75 \<longrightarrow> fst (classify_feasibility (Some (Fin v))) = ''moderate_high'')
   \<and> (25 \<le> v \<and> v < 50 \<longrightarrow> fst (classify_feasibility (Some (Fin v))) = ''moderate'')
   \<and> (1 \<le> v \<and> v < 25 \<longrightarrow> fst (classify_feasibility (Some (Fin v))) = ''low'')
   \<and> (v < 1 \<longrightarrow> fst (classify_feasibility (Some (Fin v))) = ''very_low'')
   \<and> fst (classify_feasibility None) = ''no_data''
   \<and> fst (classify_feasibility (Some PosInf)) = ''very_high''
   \<and> fst (classify_feasibility (Some NegInf)) = ''very_low''
   \<and> fst (classify_feasibility (Some (Fin 100))) = ''very_high''
   \<and> fst (classify_feasibility (Some (Fin 99.99))) = ''high''
   \<and> fst (classify_feasibility (Some (Fin 75))) = ''high''
   \<and> fst (classify_feasibility (Some (Fin 74.99))) = ''moderate_high''
   \<and> fst (classify_feasibility (Some (Fin 0))) = ''very_low''
   \<and> (fst (classify_feasibility value) = ''very_high'' \<longrightarrow>
        snd (classify_feasibility value) = ''100%'' \<and> get_feasibility_color value = ''#1b5e20'')
   \<and> (fst (classify_feasibility value) = ''high'' \<longrightarrow>
        snd (classify_feasibility value) = ''75-100%'' \<and> get_feasibility_color value = ''#81c784'')
   \<and> (fst (classify_feasibility value) = ''moderate_high'' \<longrightarrow>
        snd (classify_feasibility value) = ''50-75%'' \<and> get_feasibility_color value = ''#c5e1a5'')
   \<and> (fst (classify_feasibility value) = ''moderate'' \<longrightarrow>
        snd (classify_feasibility value) = ''25-50%'' \<and> get_feasibility_color value = ''#ffd700'')
   \<and> (fst (classify_feasibility value) = ''low'' \<longrightarrow>
        snd (classify_feasibility value) = ''1-25%'' \<and> get_feasibility_color value = ''#ff8c00'')
   \<and> (fst (classify_feasibility value) = ''very_low'' \<longrightarrow>
        snd (classify_feasibility value) = ''0%'' \<and> get_feasibility_color value = ''#ff0000'')
   \<and> (fst (classify_feasibility value) = ''no_data'' \<longrightarrow>
        snd (classify_feasibility value) = ''No Data'' \<and> get_feasibility_color value = ''#E0E0E0'')"
proof -
  have ranges:
    "(v \<ge> 100 \<longrightarrow> fst (classify_feasibility (Some (Fin v))) = ''very_high'')
     \<and> (75 \<le> v \<and> v < 100 \<longrightarrow> fst (classify_feasibility (Some (Fin v))) = ''high'')
     \<and> (50 \<le> v \<and> v < 75 \<longrightarrow> fst (classify_feasibility (Some (Fin v))) = ''moderate_high'')
     \<and> (25 \<le> v \<and> v < 50 \<longrightarrow> fst (classify_feasibility (Some (Fin v))) = ''moderate'')
     \<and> (1 \<le> v \<and> v < 25 \<longrightarrow> fst (classify_feasibility (Some (Fin v))) = ''low'')
     \<and> (v < 1 \<longrightarrow> fst (classify_feasibility (Some (Fin v))) = ''very_low'')"
    by (simp add: classify_feasibility_def)
  have points:
    "fst (classify_feasibility None) = ''no_data''
     \<and> fst (classify_feasibility (Some PosInf)) = ''very_high''
     \<and> fst (classify_feasibility (Some NegInf)) = ''very_low''
     \<and> fst (classify_feasibility (Some (Fin 100))) = ''very_high''
     \<and> fst (classify_feasibility (Some (Fin 99.99))) = ''high''
     \<and> fst (classify_feasibility (Some (Fin 75))) = ''high''
     \<and> fst (classify_feasibility (Some (Fin 74.99))) = ''moderate_high''
     \<and> fst (classify_feasibility (Some (Fin 0))) = ''very_low''"
    by (simp add: classify_feasibility_def)
  have fixed:
    "(fst (classify_feasibility value) = ''very_high'' \<longrightarrow>
        snd (classify_feasibility value) = ''100%'' \<and> get_feasibility_color value = ''#1b5e20'')
     \<and> (fst (classify_feasibility value) = ''high'' \<longrightarrow>
        snd (classify_feasibility value) = ''75-100%'' \<and> get_feasibility_color value = ''#81c784'')
     \<and> (fst (classify_feasibility value) = ''moderate_high'' \<longrightarrow>
        snd (classify_feasibility value) = ''50-75%'' \<and> get_feasibility_color value = ''#c5e1a5'')
     \<and> (fst (classify_feasibility value) = ''moderate'' \<longrightarrow>
        snd (classify_feasibility value) = ''25-50%'' \<and> get_feasibility_color value = ''#ffd700'')
     \<and> (fst (classify_feasibility value) = ''low'' \<longrightarrow>
        snd (classify_feasibility value) = ''1-25%'' \<and> get_feasibility_color value = ''#ff8c00'')
     \<and> (fst (classify_feasibility value) = ''very_low'' \<longrightarrow>
        snd (classify_feasibility value) = ''0%'' \<and> get_feasibility_color value = ''#ff0000'')
     \<and> (fst (classify_feasibility value) = ''no_data'' \<longrightarrow>
        snd (classify_feasibility value) = ''No Data'' \<and> get_feasibility_color value = ''#E0E0E0'')"
    by (cases "value")
       (simp_all add: classify_feasibility_def get_feasibility_color_def FEASIBILITY_COLORS_def)
  show ?thesis using ranges points fixed by blast
qed

text \<open>The score 80 lies in the range of \<open>high\<close> and carries that class's label and colour.\<close>

theorem classify_feasibility_thresholds_witness:
  "(75::real) \<le> 80 \<and> (80::real) < 100
   \<and> classify_feasibility (Some (Fin 80)) = (''high'', ''75-100%'')
   \<and> get_feasibility_color (Some (Fin 80)) = ''#81c784''"
  using classify_feasibility_thresholds [of 80 "Some (Fin 80)"]
  by (simp add: prod_eq_iff)

subsection \<open>Lenient criteria\<close>










subsection \<open>Scored tables\<close>

lemma columns_set_column:
  "set (columns (set_column g name series)) = insert name (set (columns g))"
  by (auto simp: set_column_def)

lemma length_rows_set_column:
  "length series = length (rows g) \<Longrightarrow> length (rows (set_column g name series)) = length (rows g)"
  by (simp add: set_column_def)

lemma rows_set_column_nth:
  "i < length (rows g) \<Longrightarrow> length series = length (rows g) \<Longrightarrow>
   rows (set_column g name series) ! i = (rows g ! i)(name := series ! i)"
  by (simp add: set_column_def)

lemma add_feasibility_result:
  assumes "add_feasibility_to_gdf parse g criteria logic = Inr t"
  obtains scores where "calculate_feasibility parse g criteria logic = Inr scores"
    and "length scores = length (rows g)"
    and "t = set_column
               (set_column
                  (set_column (set_column g ''feasibility'' (map cell_of scores))
                     ''feasibility_class''
                     (map (\<lambda>x. Text (fst x)) (map classify_feasibility scores)))
                  ''feasibility_label''
                  (map (\<lambda>x. Text (snd x)) (map classify_feasibility scores)))
               ''feasibility_color'' (map (\<lambda>v. Text (get_feasibility_color v)) scores)"
proof -
  from assms obtain scores where s: "calculate_feasibility parse g criteria logic = Inr scores"
    by (auto simp: add_feasibility_to_gdf_def split: sum.splits)
  have l: "length scores = length (rows g)"
    using s by (rule length_calculate_feasibility)
  show thesis
    using assms s l that by (simp add: add_feasibility_to_gdf_def Let_def)
qed

lemma length_rows_add_feasibility:
  assumes "add_feasibility_to_gdf parse g criteria logic = Inr t"
  shows "length (rows t) = length (rows g)"
  using assms by (elim add_feasibility_result) (simp add: length_rows_set_column)

lemma columns_add_feasibility:
  assumes "add_feasibility_to_gdf parse g criteria logic = Inr t"
  shows "set (columns t) =
     set (columns g) \<union> {''feasibility'', ''feasibility_class'', ''feasibility_label'',
                         ''feasibility_color''}"
  using assms by (elim add_feasibility_result) (auto simp: columns_set_column)

lemma rows_add_feasibility_nth:
  assumes "add_feasibility_to_gdf parse g criteria logic = Inr t"
    and "calculate_feasibility parse g criteria logic = Inr scores"
    and "i < length (rows g)"
  shows "rows t ! i =
     (rows g ! i)
       (''feasibility'' := cell_of (scores ! i),
        ''feasibility_class'' := Text (fst (classify_feasibility (scores ! i))),
        ''feasibility_label'' := Text (snd (classify_feasibility (scores ! i))),
        ''feasibility_color'' := Text (get_feasibility_color (scores ! i)))"
  using assms
  by (elim add_feasibility_result)
     (simp add: rows_set_column_nth length_rows_set_column)

lemma is_score_cell_of: "is_score (cell_of v)"
  by (cases v) simp_all

lemma label_in_all_labels: "snd (classify_feasibility v) \<in> set all_labels"
  by (cases v) (simp_all add: classify_feasibility_def all_labels_def)

lemma scored_add_feasibility:
  assumes "add_feasibility_to_gdf parse g criteria logic = Inr t"
  shows "scored t"
proof -
  from assms obtain scores where s: "calculate_feasibility parse g criteria logic = Inr scores"
    by (elim add_feasibility_result)
  have "is_score ((rows t ! i) ''feasibility'')
        \<and> (rows t ! i) ''feasibility_label'' \<in> set (map Text all_labels)"
    if "i < length (rows t)" for i
  proof -
    from that have i: "i < length (rows g)"
      by (simp add: length_rows_add_feasibility [OF assms])
    show ?thesis
      by (simp add: rows_add_feasibility_nth [OF assms s i] is_score_cell_of label_in_all_labels)
  qed
  then have "list_all (\<lambda>r. is_score (r ''feasibility'')
                       \<and> r ''feasibility_label'' \<in> set (map Text all_labels)) (rows t)"
    by (simp add: list_all_length)
  then show ?thesis
    by (simp add: scored_def columns_add_feasibility [OF assms])
qed

lemma scored_select_rows: "scored t \<Longrightarrow> scored (select_rows t keep)"
  by (auto simp: scored_def select_rows_def list_all_iff)

lemma scored_scope_for_stats:
  "scored t \<Longrightarrow> scope_for_stats astype_str t district = Inr s \<Longrightarrow> scored s"
  by (auto simp: scope_for_stats_def scored_select_rows split: option.splits if_splits)

subsection \<open>The distribution\<close>

lemma fill_labels:
  "fold (\<lambda>label d. case d (Text label) of None \<Rightarrow> d(Text label \<mapsto> 0) | Some n \<Rightarrow> d) ls d k =
     (case d k of
        Some n \<Rightarrow> Some n
      | None \<Rightarrow> if k \<in> set (map Text ls) then Some (0::nat) else None)"
proof (induction ls arbitrary: d)
  case Nil
  then show ?case by (simp split: option.splits)
next
  case (Cons l ls)
  show ?case
    by (cases "d (Text l)") (auto simp: Cons.IH split: option.splits)
qed

lemma distribution_of_scored:
  assumes "scored t"
  shows "get_feasibility_distribution t k =
     (if k \<in> set (map Text all_labels)
      then Some (count_list (map (\<lambda>r. r ''feasibility_label'') (rows t)) k)
      else None)"
proof -
  let ?labels = "map (\<lambda>r. r ''feasibility_label'') (rows t)"
  have sub: "set ?labels \<subseteq> set (map Text all_labels)"
    using assms by (auto simp: scored_def list_all_iff)
  have vc: "value_counts ?labels k =
      (if k \<in> set ?labels then Some (count_list ?labels k) else None)"
    using sub by (auto simp: value_counts_def)
  have zero: "k \<notin> set ?labels \<Longrightarrow> count_list ?labels k = 0"
    by (simp add: count_list_0_iff)
  have "''feasibility_label'' \<in> set (columns t)"
    using assms by (simp add: scored_def)
  then have "get_feasibility_distribution t k =
      (case value_counts ?labels k of
         Some n \<Rightarrow> Some n
       | None \<Rightarrow> if k \<in> set (map Text all_labels) then Some 0 else None)"
    by (simp add: get_feasibility_distribution_def Let_def fill_labels)
  then show ?thesis
    using vc sub zero by (auto split: option.splits)
qed

lemma distinct_all_labels: "distinct (map Text all_labels)"
  by (simp add: all_labels_def)

lemma distribution_total:
  assumes "scored t"
  shows "dom (get_feasibility_distribution t) = set (map Text all_labels)"
    and "(\<Sum>l \<leftarrow> all_labels. the (get_feasibility_distribution t (Text l))) = length (rows t)"
proof -
  let ?labels = "map (\<lambda>r. r ''feasibility_label'') (rows t)"
  show "dom (get_feasibility_distribution t) = set (map Text all_labels)"
    by (auto simp: distribution_of_scored [OF assms] dom_def split: if_splits)
  have sub: "set ?labels \<subseteq> set (map Text all_labels)"
    using assms by (auto simp: scored_def list_all_iff)
  have "map (\<lambda>l. the (get_feasibility_distribution t (Text l))) all_labels
        = map (\<lambda>l. count_list ?labels (Text l)) all_labels"
    by (rule map_cong) (simp_all add: distribution_of_scored [OF assms])
  then have "(\<Sum>l \<leftarrow> all_labels. the (get_feasibility_distribution t (Text l)))
        = (\<Sum>l \<leftarrow> all_labels. count_list ?labels (Text l))"
    by (rule arg_cong)
  then have "(\<Sum>l \<leftarrow> all_labels. the (get_feasibility_distribution t (Text l)))
        = (\<Sum>k \<leftarrow> map Text all_labels. count_list ?labels k)"
    by (simp only: map_map comp_def)
  also have "\<dots> = sum (count_list ?labels) (set (map Text all_labels))"
    using distinct_all_labels by (simp only: sum_list_distinct_conv_sum_set)
  also have "\<dots> = length ?labels"
    using sub by (rule sum_count_set) simp
  finally show "(\<Sum>l \<leftarrow> all_labels. the (get_feasibility_distribution t (Text l))) = length (rows t)"
    by simp
qed

text \<open>
  C6. For every table that \<^verbatim>\<open>add_feasibility_to_gdf\<close> has scored, and for every
  selection of its rows, the distribution has exactly the seven bucket labels as keys,
  its counts are natural numbers, and the seven counts add up to the number of units of
  the table.
\<close>

theorem distribution_covers_all_units:
  assumes "add_feasibility_to_gdf parse g criteria logic = Inr t"
  shows "dom (get_feasibility_distribution (select_rows t keep))
     = {Text ''100%'', Text ''75-100%'', Text ''50-75%'', Text ''25-50%'', Text ''1-25%'',
        Text ''0%'', Text ''No Data''}
   \<and> (\<Sum>l \<leftarrow> [''100%'', ''75-100%'', ''50-75%'', ''25-50%'', ''1-25%'', ''0%'', ''No Data''].
        the (get_feasibility_distribution (select_rows t keep) (Text l)))
     = length (rows (select_rows t keep))
   \<and> (\<Sum>l \<leftarrow> [''100%'', ''75-100%'', ''50-75%'', ''25-50%'', ''1-25%'', ''0%'', ''No Data''].
        the (get_feasibility_distribution t (Text l)))
     = length (rows g)"
proof -
  have s: "scored t" using assms by (rule scored_add_feasibility)
  then have s': "scored (select_rows t keep)" by (rule scored_select_rows)
  have "dom (get_feasibility_distribution (select_rows t keep)) = set (map Text all_labels)"
    using s' by (rule distribution_total)
  moreover have "(\<Sum>l \<leftarrow> all_labels. the (get_feasibility_distribution (select_rows t keep) (Text l)))
      = length (rows (select_rows t keep))"
    using s' by (rule distribution_total)
  moreover have "(\<Sum>l \<leftarrow> all_labels. the (get_feasibility_distribution t (Text l)))
      = length (rows g)"
    using distribution_total(2) [OF s] by (simp add: length_rows_add_feasibility [OF assms])
  ultimately show ?thesis
    by (simp add: all_labels_def)
qed

lemma two_units_scored:
  "add_feasibility_to_gdf parse_none two_units [range_criterion ''AD'' 20 60 (jnum 1)] ''AND''
   = Inr (projr (add_feasibility_to_gdf parse_none two_units
                   [range_criterion ''AD'' 20 60 (jnum 1)] ''AND''))"
proof -
  have "list_all numeric_criterion [range_criterion ''AD'' 20 60 (jnum 1)]"
    by (simp add: numeric_criterion_def example_defs)
  then have "\<exists>scores. calculate_feasibility parse_none two_units
                [range_criterion ''AD'' 20 60 (jnum 1)] ''AND'' = Inr scores"
    by (rule calculate_feasibility_numeric)
  then show ?thesis
    by (auto simp: add_feasibility_to_gdf_def)
qed

text \<open>
  The two units scored against \<open>AD\<close> between 20 and 60: the seven counts add up to the
  two units.
\<close>

theorem distribution_covers_all_units_witness:
  "\<not> isl (add_feasibility_to_gdf parse_none two_units
             [range_criterion ''AD'' 20 60 (jnum 1)] ''AND'')
   \<and> (\<Sum>l \<leftarrow> [''100%'', ''75-100%'', ''50-75%'', ''25-50%'', ''1-25%'', ''0%'', ''No Data''].
        the (get_feasibility_distribution
               (projr (add_feasibility_to_gdf parse_none two_units
                         [range_criterion ''AD'' 20 60 (jnum 1)] ''AND'')) (Text l)))
     = 2"
proof -
  let ?r = "add_feasibility_to_gdf parse_none two_units
              [range_criterion ''AD'' 20 60 (jnum 1)] ''AND''"
  have len: "length (rows two_units) = 2"
    by (simp add: two_units_def)
  have ok: "\<not> isl ?r"
    using two_units_scored by (metis sum.disc(2))
  have "(\<Sum>l \<leftarrow> [''100%'', ''75-100%'', ''50-75%'', ''25-50%'', ''1-25%'', ''0%'', ''No Data''].
        the (get_feasibility_distribution (projr ?r) (Text l))) = length (rows two_units)"
    using distribution_covers_all_units [OF two_units_scored, of "\<lambda>r. True"] by blast
  then show ?thesis
    using ok len by (simp only:) simp
qed

subsection \<open>Statistics\<close>

lemma as_floats_scores:
  "list_all is_score cs \<Longrightarrow> as_floats (filter (\<lambda>c. c \<noteq> NaN) cs) = Some (scores_of cs)"
proof (induction cs)
  case Nil
  then show ?case by simp
next
  case (Cons c cs)
  then show ?case by (cases c) simp_all
qed

lemma count_scores:
  "length (filter P (scores_of cs)) = length (filter (score_satisfies P) cs)"
proof (induction cs)
  case Nil
  then show ?case by simp
next
  case (Cons c cs)
  then show ?case by (cases c) simp_all
qed

lemma stats_of_scored:
  assumes "scored t"
  shows "\<exists>m. get_feasibility_stats series_mean series_median t = Inr m
     \<and> dom m = {''total_blocks'', ''blocks_with_data'', ''blocks_no_data'', ''mean'', ''median'',
                ''min'', ''max'', ''high_feasibility'', ''low_feasibility''}
     \<and> m ''total_blocks'' = Some (SInt (int (length (rows t))))
     \<and> m ''high_feasibility'' =
         Some (SInt (int (length (filter (\<lambda>r. score_satisfies (\<lambda>v. ge_bound v (Fin 75))
                                                (r ''feasibility''))
                                   (rows t)))))
     \<and> m ''low_feasibility'' =
         Some (SInt (int (length (filter (\<lambda>r. score_satisfies (\<lambda>v. \<not> ge_bound v (Fin 25))
                                                (r ''feasibility''))
                                   (rows t)))))"
proof -
  let ?col = "map (\<lambda>r. r ''feasibility'') (rows t)"
  have col: "''feasibility'' \<in> set (columns t)"
    using assms by (simp add: scored_def)
  have "list_all is_score ?col"
    using assms by (simp add: scored_def list_all_iff)
  then have valid: "as_floats (filter (\<lambda>c. c \<noteq> NaN) ?col) = Some (scores_of ?col)"
    by (rule as_floats_scores)
  have hi: "length (filter (\<lambda>v. ge_bound v (Fin 75)) (scores_of ?col)) =
            length (filter (\<lambda>r. score_satisfies (\<lambda>v. ge_bound v (Fin 75)) (r ''feasibility''))
                      (rows t))"
    by (simp add: count_scores comp_def)
  have lo: "length (filter (\<lambda>v. \<not> ge_bound v (Fin 25)) (scores_of ?col)) =
            length (filter (\<lambda>r. score_satisfies (\<lambda>v. \<not> ge_bound v (Fin 25)) (r ''feasibility''))
                      (rows t))"
    by (simp add: count_scores comp_def)
  show ?thesis
    using col valid hi lo
    by (simp add: get_feasibility_stats_def insert_commute)
qed

text \<open>
  C10. For every table with a \<^verbatim>\<open>feasibility\<close> column in which no unit has a defined
  score, \<^verbatim>\<open>get_feasibility_stats\<close> returns a statistics dict and not an error, with
  count of units with data 0, mean 0, median 0, min 0 and max 100.
\<close>

theorem stats_without_data_fallbacks:
  assumes "''feasibility'' \<in> set (columns g)"
    and "list_all (\<lambda>r. r ''feasibility'' = NaN) (rows g)"
  shows "\<exists>m. get_feasibility_stats series_mean series_median g = Inr m
     \<and> m ''total_blocks'' = Some (SInt (int (length (rows g))))
     \<and> m ''blocks_with_data'' = Some (SInt 0)
     \<and> m ''blocks_no_data'' = Some (SInt (int (length (rows g))))
     \<and> m ''mean'' = Some (SInt 0)
     \<and> m ''median'' = Some (SInt 0)
     \<and> m ''min'' = Some (SInt 0)
     \<and> m ''max'' = Some (SInt 100)"
proof -
  have "filter (\<lambda>c. c \<noteq> NaN) (map (\<lambda>r. r ''feasibility'') (rows g)) = []"
    using assms(2) by (simp add: list_all_iff filter_empty_conv)
  then show ?thesis
    using assms(1) by (simp add: get_feasibility_stats_def)
qed

lemma two_units_unscored:
  "add_feasibility_to_gdf parse_none two_units [] ''AND''
   = Inr (projr (add_feasibility_to_gdf parse_none two_units [] ''AND''))"
  by (simp add: add_feasibility_to_gdf_def calculate_feasibility_def)

text \<open>
  The two units scored with no criteria: both scores are undefined, and the statistics
  carry the fallback values.
\<close>

theorem stats_without_data_fallbacks_witness:
  "''feasibility'' \<in> set (columns (projr (add_feasibility_to_gdf parse_none two_units [] ''AND'')))
   \<and> list_all (\<lambda>r. r ''feasibility'' = NaN)
        (rows (projr (add_feasibility_to_gdf parse_none two_units [] ''AND'')))
   \<and> \<not> isl (get_feasibility_stats mean_example median_example
              (projr (add_feasibility_to_gdf parse_none two_units [] ''AND'')))
   \<and> projr (get_feasibility_stats mean_example median_example
              (projr (add_feasibility_to_gdf parse_none two_units [] ''AND'')))
        ''blocks_with_data'' = Some (SInt 0)
   \<and> projr (get_feasibility_stats mean_example median_example
              (projr (add_feasibility_to_gdf parse_none two_units [] ''AND'')))
        ''mean'' = Some (SInt 0)
   \<and> projr (get_feasibility_stats mean_example median_example
              (projr (add_feasibility_to_gdf parse_none two_units [] ''AND'')))
        ''median'' = Some (SInt 0)
   \<and> projr (get_feasibility_stats mean_example median_example
              (projr (add_feasibility_to_gdf parse_none two_units [] ''AND'')))
        ''min'' = Some (SInt 0)
   \<and> projr (get_feasibility_stats mean_example median_example
              (projr (add_feasibility_to_gdf parse_none two_units [] ''AND'')))
        ''max'' = Some (SInt 100)"
proof -
  let ?t = "projr (add_feasibility_to_gdf parse_none two_units [] ''AND'')"
  have a: "''feasibility'' \<in> set (columns ?t)"
    by (simp add: columns_add_feasibility [OF two_units_unscored])
  have b: "list_all (\<lambda>r. r ''feasibility'' = NaN) (rows ?t)"
    by (simp add: add_feasibility_to_gdf_def set_column_def calculate_feasibility_def
          two_units_def)
  show ?thesis
    using a b stats_without_data_fallbacks [OF a b, of mean_example median_example] by auto
qed

subsection \<open>The statistics returned with the map data\<close>

lemma calculate_and_get_geojson_result:
  assumes "calculate_and_get_geojson parse astype_str series_mean series_median
             g criteria logic district = Inr res"
  shows "\<exists>w t m. add_feasibility_to_gdf parse g criteria logic = Inr w
     \<and> scope_for_stats astype_str w district = Inr t
     \<and> get_feasibility_stats series_mean series_median t = Inr m
     \<and> geojson res = to_json w
     \<and> statistics res = m(''distribution'' \<mapsto> SDist (get_feasibility_distribution t))"
  using assms
  by (auto simp: calculate_and_get_geojson_def Let_def split: sum.splits)

text \<open>
  C5 (as amended). The statistics object that \<^verbatim>\<open>calculate_and_get_geojson\<close> returns has
  exactly the keys \<^verbatim>\<open>total_blocks\<close>, \<^verbatim>\<open>blocks_with_data\<close>, \<^verbatim>\<open>blocks_no_data\<close>,
  \<^verbatim>\<open>mean\<close>, \<^verbatim>\<open>median\<close>, \<^verbatim>\<open>min\<close>, \<^verbatim>\<open>max\<close>, \<^verbatim>\<open>high_feasibility\<close>,
  \<^verbatim>\<open>low_feasibility\<close> and \<^verbatim>\<open>distribution\<close>. Over the units in scope,
  \<^verbatim>\<open>total_blocks\<close> is their number, \<^verbatim>\<open>high_feasibility\<close> counts those with a score of
  at least 75, \<^verbatim>\<open>low_feasibility\<close> those with a score below 25, and
  \<^verbatim>\<open>distribution\<close> maps each of the seven bucket labels to a count.
\<close>

theorem statistics_keys_and_counts:
  assumes "calculate_and_get_geojson parse astype_str series_mean series_median
             g criteria logic district = Inr res"
  shows "\<exists>w t. add_feasibility_to_gdf parse g criteria logic = Inr w
     \<and> scope_for_stats astype_str w district = Inr t
     \<and> dom (statistics res) =
         {''total_blocks'', ''blocks_with_data'', ''blocks_no_data'', ''mean'', ''median'',
          ''min'', ''max'', ''high_feasibility'', ''low_feasibility'', ''distribution''}
     \<and> statistics res ''total_blocks'' = Some (SInt (int (length (rows t))))
     \<and> statistics res ''high_feasibility'' =
         Some (SInt (int (length (filter (\<lambda>r. score_satisfies (\<lambda>v. ge_bound v (Fin 75))
                                                (r ''feasibility''))
                                   (rows t)))))
     \<and> statistics res ''low_feasibility'' =
         Some (SInt (int (length (filter (\<lambda>r. score_satisfies (\<lambda>v. \<not> ge_bound v (Fin 25))
                                                (r ''feasibility''))
                                   (rows t)))))
     \<and> statistics res ''distribution'' = Some (SDist (get_feasibility_distribution t))
     \<and> dom (get_feasibility_distribution t) =
         {Text ''100%'', Text ''75-100%'', Text ''50-75%'', Text ''25-50%'', Text ''1-25%'',
          Text ''0%'', Text ''No Data''}"
proof -
  obtain w t m where w: "add_feasibility_to_gdf parse g criteria logic = Inr w"
    and t: "scope_for_stats astype_str w district = Inr t"
    and m: "get_feasibility_stats series_mean series_median t = Inr m"
    and st: "statistics res = m(''distribution'' \<mapsto> SDist (get_feasibility_distribution t))"
    using calculate_and_get_geojson_result [OF assms] by blast
  have sc: "scored t"
    using scored_add_feasibility [OF w] t by (rule scored_scope_for_stats)
  have keys: "dom m = {''total_blocks'', ''blocks_with_data'', ''blocks_no_data'', ''mean'',
                       ''median'', ''min'', ''max'', ''high_feasibility'', ''low_feasibility''}"
    and total: "m ''total_blocks'' = Some (SInt (int (length (rows t))))"
    and high: "m ''high_feasibility'' =
         Some (SInt (int (length (filter (\<lambda>r. score_satisfies (\<lambda>v. ge_bound v (Fin 75))
                                                (r ''feasibility''))
                                   (rows t)))))"
    and low: "m ''low_feasibility'' =
         Some (SInt (int (length (filter (\<lambda>r. score_satisfies (\<lambda>v. \<not> ge_bound v (Fin 25))
                                                (r ''feasibility''))
                                   (rows t)))))"
    using stats_of_scored [OF sc, of series_mean series_median] m by simp_all
  have d: "dom (get_feasibility_distribution t) =
         {Text ''100%'', Text ''75-100%'', Text ''50-75%'', Text ''25-50%'', Text ''1-25%'',
          Text ''0%'', Text ''No Data''}"
    using distribution_total(1) [OF sc] by (simp add: all_labels_def)
  have k: "dom (statistics res) =
         {''total_blocks'', ''blocks_with_data'', ''blocks_no_data'', ''mean'', ''median'',
          ''min'', ''max'', ''high_feasibility'', ''low_feasibility'', ''distribution''}"
    using keys st by auto
  show ?thesis
    using w t st total high low d k by simp
qed

lemma count_column:
  "length (filter (\<lambda>r. Q (r name)) rs) = length (filter Q (map (\<lambda>r. r name) rs))"
  by (simp add: filter_map comp_def)

lemma two_units_scores:
  "calculate_feasibility parse_none two_units [range_criterion ''AD'' 20 60 (jnum 1)] ''AND''
   = Inr [Some (Fin 100), Some (Fin 0)]"
  by (simp add: calculate_feasibility_def calculate_criteria_match_def add_matches_def
        add_applicable_def fadd_def fmul_def fdiv_def rnd_small_numbers example_defs)

lemma two_units_scored_table:
  "add_feasibility_to_gdf parse_none two_units [range_criterion ''AD'' 20 60 (jnum 1)] ''AND''
   = Inr w \<Longrightarrow>
   length (rows w) = 2 \<and> map (\<lambda>r. r ''feasibility'') (rows w) = [Num (Fin 100), Num (Fin 0)]"
  unfolding add_feasibility_to_gdf_def two_units_scores
  by (auto simp: set_column_def two_units_def)

lemma two_units_result:
  "calculate_and_get_geojson parse_none astype_str_example mean_example median_example
     two_units [range_criterion ''AD'' 20 60 (jnum 1)] ''AND'' None
   = Inr (projr (calculate_and_get_geojson parse_none astype_str_example mean_example
                   median_example two_units [range_criterion ''AD'' 20 60 (jnum 1)] ''AND''
                   None))"
proof -
  obtain w where w: "add_feasibility_to_gdf parse_none two_units
                       [range_criterion ''AD'' 20 60 (jnum 1)] ''AND'' = Inr w"
    using two_units_scored by blast
  then have "scored w" by (rule scored_add_feasibility)
  from stats_of_scored [OF this, of mean_example median_example]
  obtain m where "get_feasibility_stats mean_example median_example w = Inr m"
    by (elim exE conjE)
  then have "\<exists>res. calculate_and_get_geojson parse_none astype_str_example mean_example
               median_example two_units [range_criterion ''AD'' 20 60 (jnum 1)] ''AND'' None
             = Inr res"
    using w by (simp add: calculate_and_get_geojson_def scope_for_stats_def Let_def)
  then show ?thesis by auto
qed

text \<open>
  The two units scored against \<open>AD\<close> between 20 and 60, without a scope: scores 100 and
  0, so two units in total, one score of at least 75 and one below 25.
\<close>

theorem statistics_keys_and_counts_witness:
  "\<not> isl (calculate_and_get_geojson parse_none astype_str_example mean_example median_example
            two_units [range_criterion ''AD'' 20 60 (jnum 1)] ''AND'' None)
   \<and> dom (statistics (projr (calculate_and_get_geojson parse_none astype_str_example
            mean_example median_example two_units
            [range_criterion ''AD'' 20 60 (jnum 1)] ''AND'' None))) =
         {''total_blocks'', ''blocks_with_data'', ''blocks_no_data'', ''mean'', ''median'',
          ''min'', ''max'', ''high_feasibility'', ''low_feasibility'', ''distribution''}
   \<and> statistics (projr (calculate_and_get_geojson parse_none astype_str_example
            mean_example median_example two_units
            [range_criterion ''AD'' 20 60 (jnum 1)] ''AND'' None)) ''total_blocks''
       = Some (SInt 2)
   \<and> statistics (projr (calculate_and_get_geojson parse_none astype_str_example
            mean_example median_example two_units
            [range_criterion ''AD'' 20 60 (jnum 1)] ''AND'' None)) ''high_feasibility''
       = Some (SInt 1)
   \<and> statistics (projr (calculate_and_get_geojson parse_none astype_str_example
            mean_example median_example two_units
            [range_criterion ''AD'' 20 60 (jnum 1)] ''AND'' None)) ''low_feasibility''
       = Some (SInt 1)"
proof -
  let ?a = "add_feasibility_to_gdf parse_none two_units
              [range_criterion ''AD'' 20 60 (jnum 1)] ''AND''"
  let ?r = "calculate_and_get_geojson parse_none astype_str_example mean_example median_example
              two_units [range_criterion ''AD'' 20 60 (jnum 1)] ''AND'' None"
  have ok: "\<not> isl ?r"
    using two_units_result by (metis sum.disc(2))
  from statistics_keys_and_counts [OF two_units_result]
  obtain w t where w: "?a = Inr w"
    and t: "scope_for_stats astype_str_example w None = Inr t"
    and k: "dom (statistics (projr ?r)) =
         {''total_blocks'', ''blocks_with_data'', ''blocks_no_data'', ''mean'', ''median'',
          ''min'', ''max'', ''high_feasibility'', ''low_feasibility'', ''distribution''}"
    and total: "statistics (projr ?r) ''total_blocks'' = Some (SInt (int (length (rows t))))"
    and high: "statistics (projr ?r) ''high_feasibility'' =
         Some (SInt (int (length (filter (\<lambda>r. score_satisfies (\<lambda>v. ge_bound v (Fin 75))
                                                (r ''feasibility''))
                                   (rows t)))))"
    and low: "statistics (projr ?r) ''low_feasibility'' =
         Some (SInt (int (length (filter (\<lambda>r. score_satisfies (\<lambda>v. \<not> ge_bound v (Fin 25))
                                                (r ''feasibility''))
                                   (rows t)))))"
    by (elim exE conjE)
  have tw: "t = w" using t by (simp add: scope_for_stats_def)
  have len: "length (rows w) = 2"
    and col: "map (\<lambda>r. r ''feasibility'') (rows w) = [Num (Fin 100), Num (Fin 0)]"
    using two_units_scored_table [OF w] by simp_all
  have hi: "length (filter (\<lambda>r. score_satisfies (\<lambda>v. ge_bound v (Fin 75)) (r ''feasibility''))
                      (rows w)) = 1"
    by (simp only: count_column col) simp
  have lo: "length (filter (\<lambda>r. score_satisfies (\<lambda>v. \<not> ge_bound v (Fin 25)) (r ''feasibility''))
                      (rows w)) = 1"
    by (simp only: count_column col) simp
  show ?thesis
    using ok k total high low len hi lo by (simp only: tw) simp
qed

text \<open>
  C5 as worded fails on the same input: the statistics object has no key \<^verbatim>\<open>total\<close>;
  the number of units is under \<^verbatim>\<open>total_blocks\<close>.
\<close>

theorem statistics_key_names_counterexample:
  "\<not> isl (calculate_and_get_geojson parse_none astype_str_example mean_example median_example
            two_units [range_criterion ''AD'' 20 60 (jnum 1)] ''AND'' None)
   \<and> dom (statistics (projr (calculate_and_get_geojson parse_none astype_str_example
            mean_example median_example two_units
            [range_criterion ''AD'' 20 60 (jnum 1)] ''AND'' None))) \<noteq>
         {''total'', ''with_data'', ''without_data'', ''mean'', ''median'',
          ''min'', ''max'', ''high_count'', ''low_count'', ''distribution''}
   \<and> statistics (projr (calculate_and_get_geojson parse_none astype_str_example
            mean_example median_example two_units
            [range_criterion ''AD'' 20 60 (jnum 1)] ''AND'' None)) ''total'' = None
   \<and> statistics (projr (calculate_and_get_geojson parse_none astype_str_example
            mean_example median_example two_units
            [range_criterion ''AD'' 20 60 (jnum 1)] ''AND'' None)) ''total_blocks''
       = Some (SInt 2)"
proof -
  let ?r = "calculate_and_get_geojson parse_none astype_str_example mean_example median_example
              two_units [range_criterion ''AD'' 20 60 (jnum 1)] ''AND'' None"
  have ok: "\<not> isl ?r"
    using two_units_result by (metis sum.disc(2))
  obtain w where w: "add_feasibility_to_gdf parse_none two_units
                       [range_criterion ''AD'' 20 60 (jnum 1)] ''AND'' = Inr w"
    using two_units_scored by blast
  then have "scored w" by (rule scored_add_feasibility)
  from stats_of_scored [OF this, of mean_example median_example]
  obtain m where m: "get_feasibility_stats mean_example median_example w = Inr m"
    and keys: "dom m = {''total_blocks'', ''blocks_with_data'', ''blocks_no_data'', ''mean'',
                       ''median'', ''min'', ''max'', ''high_feasibility'', ''low_feasibility''}"
    and total: "m ''total_blocks'' = Some (SInt (int (length (rows w))))"
    by (elim exE conjE)
  have st: "statistics (projr ?r) = m(''distribution'' \<mapsto> SDist (get_feasibility_distribution w))"
    using m w by (simp add: calculate_and_get_geojson_def scope_for_stats_def Let_def)
  have len: "length (rows w) = 2"
    using two_units_scored_table [OF w] by simp
  have "''total'' \<notin> dom m" using keys by simp
  then have none: "statistics (projr ?r) ''total'' = None"
    using st by (simp add: domIff)
  then have "''total'' \<notin> dom (statistics (projr ?r))" by (simp add: domIff)
  then have ne: "dom (statistics (projr ?r)) \<noteq>
         {''total'', ''with_data'', ''without_data'', ''mean'', ''median'',
          ''min'', ''max'', ''high_count'', ''low_count'', ''distribution''}"
    by blast
  show ?thesis
    using ok ne none st total len by simp
qed

subsection \<open>The scope of the statistics\<close>

lemma geojson_is_unscoped:
  assumes "calculate_and_get_geojson parse astype_str series_mean series_median
             g criteria logic district = Inr res"
  shows "\<exists>w. add_feasibility_to_gdf parse g criteria logic = Inr w
     \<and> geojson res = to_json w \<and> length (geojson res) = length (rows g)"
proof -
  obtain w where w: "add_feasibility_to_gdf parse g criteria logic = Inr w"
    and gj: "geojson res = to_json w"
    using calculate_and_get_geojson_result [OF assms] by blast
  have "length (geojson res) = length (rows g)"
    using gj by (simp add: to_json_def length_rows_add_feasibility [OF w])
  with w gj show ?thesis by simp
qed

lemma scope_without_match:
  assumes "d \<noteq> []"
    and "''Dist_Name'' \<in> set (columns g) \<or> ''DISTRICT_I'' \<in> set (columns g)"
    and "''Dist_Name'' \<in> set (columns g) \<Longrightarrow> list_all (\<lambda>r. r ''Dist_Name'' \<noteq> Text d) (rows g)"
    and "''DISTRICT_I'' \<in> set (columns g) \<Longrightarrow>
           list_all (\<lambda>r. astype_str (r ''DISTRICT_I'') \<noteq> d) (rows g)"
  shows "\<exists>t. scope_for_stats astype_str g (Some d) = Inr t \<and> rows t = []"
  using assms
  by (auto simp: scope_for_stats_def select_rows_def list_all_iff filter_empty_conv)

text \<open>
  C8. \<^verbatim>\<open>calculate_and_get_geojson\<close> is to return the full scored collection for
  every scope, and statistics over zero units when the scope matches no unit by name or
  by identifier. On a table that has neither a \<^verbatim>\<open>Dist_Name\<close> nor a \<^verbatim>\<open>DISTRICT_I\<close>
  column no unit matches the scope, and the function raises \<^verbatim>\<open>KeyError\<close> instead: the
  first test reads \<^verbatim>\<open>DISTRICT_I\<close> without the check for the column that the fallback
  two lines below makes. On tables with either column the two lemmas above hold.
\<close>

theorem scope_on_table_without_region_columns:
  "calculate_and_get_geojson parse astype_str series_mean series_median
     \<lparr> columns = [''AD''], rows = [row_of [(''AD'', Num (Fin 40))]] \<rparr>
     [range_criterion ''AD'' 20 60 (jnum 1)] ''AND'' (Some ''RegionX'')
   = Inl (KeyError ''DISTRICT_I'')"
proof -
  let ?g = "\<lparr> columns = [''AD''], rows = [row_of [(''AD'', Num (Fin 40))]] \<rparr>"
  have "list_all numeric_criterion [range_criterion ''AD'' 20 60 (jnum 1)]"
    by (simp add: numeric_criterion_def example_defs)
  from calculate_feasibility_numeric [OF this, of parse ?g "''AND''"]
  obtain scores where "calculate_feasibility parse ?g
      [range_criterion ''AD'' 20 60 (jnum 1)] ''AND'' = Inr scores"
    by (elim exE)
  then obtain w where w: "add_feasibility_to_gdf parse ?g
      [range_criterion ''AD'' 20 60 (jnum 1)] ''AND'' = Inr w"
    by (simp add: add_feasibility_to_gdf_def)
  have "set (columns w) = {''AD'', ''feasibility'', ''feasibility_class'', ''feasibility_label'',
                           ''feasibility_color''}"
    using columns_add_feasibility [OF w] by auto
  then have "scope_for_stats astype_str w (Some ''RegionX'') = Inl (KeyError ''DISTRICT_I'')"
    by (simp add: scope_for_stats_def)
  then show ?thesis
    using w by (simp add: calculate_and_get_geojson_def)
qed

subsection \<open>Loading the data sources\<close>

lemma lru_cache_agrees:
  "cache_agrees f s slot \<Longrightarrow> fst (lru_cache f slot s) = f s"
  by (auto simp: cache_agrees_def lru_cache_def split: option.splits sum.splits)

lemma lru_cache_keeps:
  "cache_agrees f s slot \<Longrightarrow> cache_agrees f s (snd (lru_cache f slot s))"
  by (auto simp: cache_agrees_def lru_cache_def split: option.splits sum.splits)

lemma empty_cache_agrees: "cache_agrees f s None"
  by (simp add: cache_agrees_def)

text \<open>
  C9. While the files do not change under a running process (each cache slot is empty
  or holds what its loader returned on these files): loading the block geometry fails
  with \<^verbatim>\<open>FileNotFoundError\<close> exactly when its file does not exist, and loading the
  sub-unit geometry or the sub-unit indicator data whose file does not exist returns
  \<^verbatim>\<open>None\<close>, not an error. After each load the slot again agrees with the files.
\<close>

theorem loaders_on_missing_files:
  "(cache_agrees (load_shapefile_body read_blocks) fs slot \<longrightarrow>
      ((\<exists>msg. fst (load_shapefile read_blocks slot fs) = Inl (FileNotFoundError msg))
         \<longleftrightarrow> fs (DATA_DIR @ ''/4DSS_VAR_2.0.shp'') = None)
      \<and> cache_agrees (load_shapefile_body read_blocks) fs
           (snd (load_shapefile read_blocks slot fs)))
   \<and> (cache_agrees (load_gp_shapefile_body read_gps) fs gp_slot
        \<and> fs (DATA_DIR @ ''/grampanchayat.shp'') = None \<longrightarrow>
      fst (load_gp_shapefile read_gps gp_slot fs) = Inr None)
   \<and> (cache_agrees (load_gp_data_body read_excel) fs data_slot
        \<and> fs (DATA_DIR @ ''/Tinsukia_GP_data.xlsx'') = None \<longrightarrow>
      fst (load_gp_data read_excel data_slot fs) = Inr None)"
proof -
  have body: "(\<exists>msg. load_shapefile_body read_blocks fs = Inl (FileNotFoundError msg))
         \<longleftrightarrow> fs (DATA_DIR @ ''/4DSS_VAR_2.0.shp'') = None"
    by (auto simp: load_shapefile_body_def Let_def split: option.splits sum.splits)
  have a: "cache_agrees (load_shapefile_body read_blocks) fs slot \<longrightarrow>
      ((\<exists>msg. fst (load_shapefile read_blocks slot fs) = Inl (FileNotFoundError msg))
         \<longleftrightarrow> fs (DATA_DIR @ ''/4DSS_VAR_2.0.shp'') = None)
      \<and> cache_agrees (load_shapefile_body read_blocks) fs
           (snd (load_shapefile read_blocks slot fs))"
    using body by (simp add: load_shapefile_def lru_cache_agrees lru_cache_keeps)
  have b: "cache_agrees (load_gp_shapefile_body read_gps) fs gp_slot
        \<and> fs (DATA_DIR @ ''/grampanchayat.shp'') = None \<longrightarrow>
      fst (load_gp_shapefile read_gps gp_slot fs) = Inr None"
    by (simp add: load_gp_shapefile_def lru_cache_agrees load_gp_shapefile_body_def)
  have c: "cache_agrees (load_gp_data_body read_excel) fs data_slot
        \<and> fs (DATA_DIR @ ''/Tinsukia_GP_data.xlsx'') = None \<longrightarrow>
      fst (load_gp_data read_excel data_slot fs) = Inr None"
    by (simp add: load_gp_data_def lru_cache_agrees load_gp_data_body_def)
  show ?thesis using a b c by blast
qed

text \<open>
  A data directory without any file and a fresh process: the block geometry fails with
  \<^verbatim>\<open>FileNotFoundError\<close>, the two optional sources return \<^verbatim>\<open>None\<close>. With the block
  file in place the load succeeds.
\<close>

theorem loaders_on_missing_files_witness:
  "cache_agrees (load_shapefile_body (\<lambda>fs file. Inr two_units)) (Map.empty :: unit files) None
   \<and> fst (load_shapefile (\<lambda>fs file. Inr two_units) None (Map.empty :: unit files))
       = Inl (FileNotFoundError ''Shapefile not found at data/4DSS_VAR_2.0.shp'')
   \<and> fst (load_shapefile (\<lambda>fs file. Inr two_units) None
            [''data/4DSS_VAR_2.0.shp'' \<mapsto> ()]) = Inr two_units
   \<and> fst (load_gp_shapefile (\<lambda>fs file. Inr two_units) None (Map.empty :: unit files)) = Inr None
   \<and> fst (load_gp_data (\<lambda>fs file. Inr two_units) None (Map.empty :: unit files)) = Inr None"
proof -
  have e1: "cache_agrees (load_shapefile_body (\<lambda>fs file. Inr two_units))
              (Map.empty :: unit files) None"
    by (rule empty_cache_agrees)
  have e2: "cache_agrees (load_gp_shapefile_body (\<lambda>fs file. Inr two_units))
              (Map.empty :: unit files) None"
    by (rule empty_cache_agrees)
  have e3: "cache_agrees (load_gp_data_body (\<lambda>fs file. Inr two_units))
              (Map.empty :: unit files) None"
    by (rule empty_cache_agrees)
  have miss: "fst (load_shapefile (\<lambda>fs file. Inr two_units) None (Map.empty :: unit files))
       = Inl (FileNotFoundError ''Shapefile not found at data/4DSS_VAR_2.0.shp'')"
    by (simp add: load_shapefile_def lru_cache_def load_shapefile_body_def DATA_DIR_def)
  have there: "fst (load_shapefile (\<lambda>fs file. Inr two_units) None
            [''data/4DSS_VAR_2.0.shp'' \<mapsto> ()]) = Inr two_units"
    by (simp add: load_shapefile_def lru_cache_def load_shapefile_body_def DATA_DIR_def)
  show ?thesis
    using loaders_on_missing_files
      [of "\<lambda>fs file. Inr two_units" "Map.empty :: unit files" None
          "\<lambda>fs file. Inr two_units" None "\<lambda>fs file. Inr two_units" None]
      e1 e2 e3 miss there
    by simp
qed

end
